theory Spec2Isabelle
  imports Main "HOL-Library.Word" "HOL-Library.Sublist"
begin

section \<open>Resources (package types)\<close>

text \<open>
  The enumerations of package \<open>types\<close>. They are Go integer types, so a decoded message
  can hold a value outside the named constants: \<open>OtherType\<close> and \<open>OtherSource\<close> stand for
  those values, which only the \<open>default\<close> branches of the crawler's switches can reach.
\<close>

datatype Protocol = InvalidProtocol | IPFSProtocol

datatype ResourceType =
  UndefinedType | UnsupportedType | FileType | DirectoryType | PartialType | OtherType nat

datatype SourceType =
  UnknownSource | SnifferSource | DirectorySource | ManualSource | UserSource | OtherSource nat

text \<open>
  \<open>AnnotatedResource\<close> embeds \<open>*Resource\<close> (\<open>Protocol\<close>, \<open>ID\<close>), \<open>Source\<close>, \<open>Reference\<close>
  (\<open>Parent\<close>, \<open>Name\<close>; built with \<open>Ref\<close>) and \<open>Stat\<close> (\<open>Type\<close>, \<open>Size\<close>). \<open>Parent\<close> is a
  pointer that may be nil.
\<close>

datatype AnnotatedResource =
  AnnotatedResource (Protocol: Protocol) (ID: string) (Source: SourceType)
    (Reference: Reference) (Type: ResourceType) (Size: "64 word")
and Reference =
  Ref (Parent: "AnnotatedResource option") (Name: string)

section \<open>Errors\<close>

text \<open>
  Go error values. \<open>WrappedError e m\<close> is \<open>t.WrappedError{Err: e, Msg: m}\<close>,
  \<open>Errorf_wv a b\<close> is \<open>fmt.Errorf("%w: %v", a, b)\<close> (it unwraps to \<open>a\<close>),
  \<open>Errorf_w m e\<close> is \<open>fmt.Errorf(m + ": %w", e)\<close> and
  \<open>ExternalError s\<close> is any error of a collaborator (a timeout, a cancelled context, a failed
  request, a malformed response) with message \<open>s\<close>.
\<close>

datatype error =
  ErrInvalidResource
| ErrFileTooLarge
| errEndOfLs
| WrappedError error string
| Errorf_wv error error
| Errorf_w string error
| ExternalError string

definition ErrDirectoryTooLarge :: error where
  "ErrDirectoryTooLarge = WrappedError ErrInvalidResource ''directory too large''"

text \<open>
  Modelled from the spec: the declaration of \<open>t.ErrUnsupportedType\<close> is not among the sources.
  The spec lists the unsupported type among the causes of \<open>InvalidResource\<close>, so it wraps
  \<open>ErrInvalidResource\<close> as \<open>ErrDirectoryTooLarge\<close> does.
\<close>

definition ErrUnsupportedType :: error where
  "ErrUnsupportedType = WrappedError ErrInvalidResource ''unsupported type''"

text \<open>
  \<open>errors.Is(err, target)\<close>: \<open>err\<close> or an error of its \<open>Unwrap\<close> chain equals \<open>target\<close>.
  A Go \<open>error\<close> may be nil (\<open>None\<close>), which matches no target.
\<close>

fun chain_Is :: "error \<Rightarrow> error \<Rightarrow> bool" where
  "chain_Is (WrappedError e m) target =
     (WrappedError e m = target \<or> chain_Is e target)"
| "chain_Is (Errorf_wv a b) target =
     (Errorf_wv a b = target \<or> chain_Is a target)"
| "chain_Is (Errorf_w m e) target =
     (Errorf_w m e = target \<or> chain_Is e target)"
| "chain_Is e target = (e = target)"

fun errors_Is :: "error option \<Rightarrow> error \<Rightarrow> bool" where
  "errors_Is None target = False"
| "errors_Is (Some e) target = chain_Is e target"

text \<open>
  Modelled from the spec: the \<open>Error()\<close> methods of \<open>t.WrappedError\<close> and of the sentinel
  errors are not among the sources. The spec asks that the message of a wrapped error contain
  its \<open>Msg\<close> (an \<open>Invalids\<close> document ``with error string containing "directory too large"''):
  a wrapped error prints its message, then its cause. \<open>fmt.Errorf("%w: %v", a, b)\<close> prints
  \<open>a\<close>, a colon and \<open>b\<close>.
\<close>

fun Error :: "error \<Rightarrow> string" where
  "Error ErrInvalidResource = ''invalid resource''"
| "Error ErrFileTooLarge = ''file too large''"
| "Error errEndOfLs = ''end of list''"
| "Error (WrappedError e m) = m @ '': '' @ Error e"
| "Error (Errorf_wv a b) = Error a @ '': '' @ Error b"
| "Error (Errorf_w m e) = m @ '': '' @ Error e"
| "Error (ExternalError s) = s"

section \<open>Index documents (package index/types)\<close>

type_synonym Time = int \<comment> \<open>nanoseconds since the Unix epoch\<close>
type_synonym Duration = int \<comment> \<open>nanoseconds; an int64 in Go\<close>

text \<open>\<open>index_types.Reference\<close>: the fields \<open>ParentHash\<close> and \<open>Name\<close>.\<close>

record IndexReference =
  ParentHash :: string
  RefName :: string

datatype LinkType = FileLinkType | DirectoryLinkType | UnknownLinkType | UnsupportedLinkType

record Link =
  Hash :: string
  LinkName :: string
  LinkSize :: "64 word"
  LinkTyp :: LinkType

record Document =
  FirstSeen :: Time
  LastSeen :: Time
  References :: "IndexReference list"
  DocSize :: "64 word"

record File = Document +
  Metadata :: "(string \<times> string) list"

record Directory = Document +
  Links :: "Link list"

text \<open>
  \<open>index_types.Update\<close>, the partial document of an update: both fields are optional
  (a nil pointer, a nil slice).
\<close>

record Update =
  upd_LastSeen :: "Time option"
  upd_References :: "IndexReference list"

text \<open>What is passed as \<open>properties interface{}\<close> to an index.\<close>

datatype Properties =
  NoProperties
| FileProperties File
| DirectoryProperties Directory
| PartialProperties
| InvalidProperties string

section \<open>The crawler and its collaborators\<close>

datatype Index = Files | Directories | Invalids | Partials

datatype Queue = FilesQueue | DirectoriesQueue | HashesQueue

text \<open>The calls the crawler makes on the search backend and on the message broker.\<close>

datatype Call =
  MultiGet string
| IndexCall Index string Properties
| UpdateCall Index string Update
| DeleteCall Index string
| PublishCall Queue AnnotatedResource "8 word"

text \<open>
  The world the crawler acts on: the calls made so far, in order, the random source of
  \<open>math/rand\<close> (its successive raw outcomes and how many were drawn) and the wall clock.
\<close>

record World =
  calls :: "Call list"
  rand_source :: "nat \<Rightarrow> nat"
  draws :: nat
  clock :: Time

text \<open>A Go call either returns or panics.\<close>

datatype 'a res = Ret 'a | Panic string

record Config =
  DirEntryBufferSize :: "64 word"
  MinUpdateAge :: Duration
  StatTimeout :: Duration
  DirEntryTimeout :: Duration
  MaxDirSize :: "64 word"

text \<open>
  What the consumer of a directory listing sees on the \<open>entries\<close> channel: the entries it
  receives, then how its last \<open>select\<close> ends (the channel is closed, or \<open>ctx.Done()\<close> fires with
  \<open>ctx.Err()\<close>); what \<open>protocol.Ls\<close> returns, and whether that error reaches the error group
  before the consumer's.
\<close>

datatype Receive = Closed | Done error

record Listing =
  received :: "AnnotatedResource list"
  last_select :: Receive
  ls_return :: "error option"
  ls_first :: bool

type_synonym Extractor = "AnnotatedResource \<Rightarrow> File \<Rightarrow> error option \<times> File"

text \<open>
  The crawler: its configuration and the behaviour of its collaborators. \<open>indexes\<close> and
  \<open>queues\<close> give what each call returns; \<open>indexes_MultiGet\<close> is the lookup over the four
  indexes (the index holding the id with the stored references and last-seen time, if any).
\<close>

record Crawler =
  config :: Config
  indexes :: "Call \<Rightarrow> error option"
  indexes_MultiGet :: "string \<Rightarrow> error + (Index \<times> Update) option"
  queues :: "Call \<Rightarrow> error option"
  protocol_Stat :: "AnnotatedResource \<Rightarrow> AnnotatedResource \<times> error option"
  protocol_Ls :: "AnnotatedResource \<Rightarrow> Listing"
  extractors :: "Extractor list"

text \<open>
  Modelled from the spec: the type \<open>existingItem\<close> and \<open>getExistingItem\<close> are not among the
  sources. The existing-item record is the incoming resource (with its \<open>Source\<close> and
  \<open>Reference\<close>), the index that holds the id, and the stored \<open>References\<close> and \<open>LastSeen\<close>.
\<close>

record existingItem =
  ei_AnnotatedResource :: AnnotatedResource
  ei_Index :: Index
  ei_References :: "IndexReference list"
  ei_LastSeen :: "Time option"

section \<open>Time and randomness\<close>

definition time_Now :: "World \<Rightarrow> Time" where
  "time_Now w = clock w"

text \<open>\<open>t.Truncate(time.Second)\<close> rounds down to a whole second.\<close>

definition Truncate_Second :: "Time \<Rightarrow> Time" where
  "Truncate_Second t = t - t mod 1000000000"

definition maxDuration :: Duration where
  "maxDuration = 2 ^ 63 - 1"

definition minDuration :: Duration where
  "minDuration = - (2 ^ 63)"

text \<open>\<open>t.Sub(u)\<close>: the difference as a \<open>Duration\<close>, saturating at the ends of int64.\<close>

definition time_Sub :: "Time \<Rightarrow> Time \<Rightarrow> Duration" where
  "time_Sub t u =
     (let d = t - u in
      if d > maxDuration then maxDuration
      else if d < minDuration then minDuration
      else d)"

text \<open>
  \<open>rand.Intn(n)\<close> for \<open>n > 0\<close>: the next outcome of the source, a number in \<open>[0, n)\<close>,
  uniformly distributed when the source is.
\<close>

definition rand_Intn :: "nat \<Rightarrow> World \<Rightarrow> nat \<times> World" where
  "rand_Intn n w = (rand_source w (draws w) mod n, w\<lparr>draws := Suc (draws w)\<rparr>)"

section \<open>Calls on the indexes and queues\<close>

definition Index_Index ::
  "Crawler \<Rightarrow> Index \<Rightarrow> string \<Rightarrow> Properties \<Rightarrow> World \<Rightarrow> error option \<times> World" where
  "Index_Index c i cid properties w =
     (indexes c (IndexCall i cid properties),
      w\<lparr>calls := calls w @ [IndexCall i cid properties]\<rparr>)"

definition Index_Update ::
  "Crawler \<Rightarrow> Index \<Rightarrow> string \<Rightarrow> Update \<Rightarrow> World \<Rightarrow> error option \<times> World" where
  "Index_Update c i cid u w =
     (indexes c (UpdateCall i cid u), w\<lparr>calls := calls w @ [UpdateCall i cid u]\<rparr>)"

definition Index_Delete ::
  "Crawler \<Rightarrow> Index \<Rightarrow> string \<Rightarrow> World \<Rightarrow> error option \<times> World" where
  "Index_Delete c i cid w =
     (indexes c (DeleteCall i cid), w\<lparr>calls := calls w @ [DeleteCall i cid]\<rparr>)"

definition Queue_Publish ::
  "Crawler \<Rightarrow> Queue \<Rightarrow> AnnotatedResource \<Rightarrow> 8 word \<Rightarrow> World \<Rightarrow> error option \<times> World" where
  "Queue_Publish c q r priority w =
     (queues c (PublishCall q r priority),
      w\<lparr>calls := calls w @ [PublishCall q r priority]\<rparr>)"

text \<open>A call that returns an error value and cannot panic.\<close>

definition returns :: "'a \<times> World \<Rightarrow> 'a res \<times> World" where
  "returns x = (Ret (fst x), snd x)"

section \<open>Indexing (components/crawler/index.go)\<close>

definition makeDocument :: "AnnotatedResource \<Rightarrow> World \<Rightarrow> Document" where
  "makeDocument r w =
     (let now = Truncate_Second (time_Now w);
          references =
            (case Parent (Reference r) of
               None \<Rightarrow> []
             | Some p \<Rightarrow> [\<lparr>ParentHash = ID p, RefName = Name (Reference r)\<rparr>])
      in \<lparr>FirstSeen = now, LastSeen = now, References = references, DocSize = Size r\<rparr>)"

definition indexInvalid ::
  "Crawler \<Rightarrow> AnnotatedResource \<Rightarrow> error \<Rightarrow> World \<Rightarrow> error option \<times> World" where
  "indexInvalid c r err w = Index_Index c Invalids (ID r) (InvalidProperties (Error err)) w"

text \<open>
  The loop of \<open>getFileProperties\<close> over \<open>c.extractors\<close>; the last argument is the current
  value of the variable \<open>err\<close>, which every extractor overwrites.
\<close>

fun getFileProperties_loop ::
  "Extractor list \<Rightarrow> AnnotatedResource \<Rightarrow> File \<Rightarrow> error option \<Rightarrow> Properties \<times> error option" where
  "getFileProperties_loop [] r properties err = (FileProperties properties, err)"
| "getFileProperties_loop (e # es) r properties err0 =
     (case e r properties of
        (None, properties') \<Rightarrow> getFileProperties_loop es r properties' None
      | (Some x, properties') \<Rightarrow>
          if errors_Is (Some x) ErrFileTooLarge
          then (NoProperties, Some (Errorf_wv ErrInvalidResource x))
          else getFileProperties_loop es r properties' (Some x))"

definition getFileProperties ::
  "Crawler \<Rightarrow> AnnotatedResource \<Rightarrow> World \<Rightarrow> Properties \<times> error option" where
  "getFileProperties c r w =
     (let d = makeDocument r w;
          properties = \<lparr>FirstSeen = FirstSeen d, LastSeen = LastSeen d,
                        References = References d, DocSize = DocSize d, Metadata = []\<rparr>
      in getFileProperties_loop (extractors c) r properties None)"

section \<open>Directory expansion\<close>

definition resourceToLinkType :: "AnnotatedResource \<Rightarrow> LinkType res" where
  "resourceToLinkType r =
     (case Type r of
        FileType \<Rightarrow> Ret FileLinkType
      | DirectoryType \<Rightarrow> Ret DirectoryLinkType
      | UndefinedType \<Rightarrow> Ret UnknownLinkType
      | UnsupportedType \<Rightarrow> Ret UnsupportedLinkType
      | _ \<Rightarrow> Panic ''unexpected type'')"

definition addLink :: "AnnotatedResource \<Rightarrow> Directory \<Rightarrow> Directory res" where
  "addLink e properties =
     (case resourceToLinkType e of
        Panic m \<Rightarrow> Panic m
      | Ret lt \<Rightarrow>
          Ret (properties\<lparr>Links := Links properties @
                 [\<lparr>Hash = ID e, LinkName = Name (Reference e), LinkSize = Size e,
                   LinkTyp = lt\<rparr>]\<rparr>))"

definition queueDirEntry ::
  "Crawler \<Rightarrow> AnnotatedResource \<Rightarrow> World \<Rightarrow> error option res \<times> World" where
  "queueDirEntry c r w =
     (case rand_Intn 7 w of
        (n, w1) \<Rightarrow>
          let priority = (of_nat (1 + n) :: 8 word) in
          (case Type r of
             UndefinedType \<Rightarrow> returns (Queue_Publish c HashesQueue r priority w1)
           | FileType \<Rightarrow> returns (Queue_Publish c FilesQueue r priority w1)
           | DirectoryType \<Rightarrow> returns (Queue_Publish c DirectoriesQueue r priority w1)
           | UnsupportedType \<Rightarrow> returns (indexInvalid c r ErrUnsupportedType w1)
           | _ \<Rightarrow> (Panic ''unexpected type'', w1)))"

text \<open>
  The loop of \<open>processDirEntries\<close>: one equation per outcome of the \<open>select\<close> of
  \<open>processNextDirEntry\<close>. It returns the error that ends the loop with \<open>isLarge\<close> and the
  document.
\<close>

fun processDirEntries_loop ::
  "Crawler \<Rightarrow> AnnotatedResource list \<Rightarrow> Receive \<Rightarrow> 64 word \<Rightarrow> bool \<Rightarrow> Directory \<Rightarrow> World
     \<Rightarrow> (error \<times> bool \<times> Directory) res \<times> World" where
  "processDirEntries_loop c [] Closed dirCnt isLarge properties w =
     (Ret (errEndOfLs, isLarge, properties), w)"
| "processDirEntries_loop c [] (Done ctxErr) dirCnt isLarge properties w =
     (Ret (ctxErr, isLarge, properties), w)"
| "processDirEntries_loop c (entry # rest) fin dirCnt isLarge properties w =
     (let isLarge' = (if dirCnt = MaxDirSize (config c) then True else isLarge) in
      case (if \<not> isLarge' then addLink entry properties else Ret properties) of
        Panic m \<Rightarrow> (Panic m, w)
      | Ret properties' \<Rightarrow>
          (case queueDirEntry c entry w of
             (Panic m, w') \<Rightarrow> (Panic m, w')
           | (Ret (Some err), w') \<Rightarrow> (Ret (err, isLarge', properties'), w')
           | (Ret None, w') \<Rightarrow>
               processDirEntries_loop c rest fin (dirCnt + 1) isLarge' properties' w'))"

definition processDirEntries ::
  "Crawler \<Rightarrow> AnnotatedResource list \<Rightarrow> Receive \<Rightarrow> Directory \<Rightarrow> World
     \<Rightarrow> (Directory \<times> error option) res \<times> World" where
  "processDirEntries c entries fin properties w =
     (case processDirEntries_loop c entries fin 0 False properties w of
        (Panic m, w') \<Rightarrow> (Panic m, w')
      | (Ret (err, isLarge, properties'), w') \<Rightarrow>
          (Ret (properties',
                if errors_Is (Some err) errEndOfLs
                then (if isLarge then Some ErrDirectoryTooLarge else None)
                else Some err), w'))"

text \<open>\<open>wg.Wait()\<close> returns the first error that reached the error group.\<close>

definition errgroup_Wait :: "Listing \<Rightarrow> error option \<Rightarrow> error option" where
  "errgroup_Wait l consumerErr =
     (if ls_first l \<and> ls_return l \<noteq> None then ls_return l
      else if consumerErr \<noteq> None then consumerErr
      else ls_return l)"

text \<open>
  \<open>crawlDir\<close> runs \<open>protocol.Ls\<close> and \<open>processDirEntries\<close> side by side; a panic of the
  consumer is raised again after \<open>wg.Wait()\<close>.
\<close>

definition crawlDir ::
  "Crawler \<Rightarrow> AnnotatedResource \<Rightarrow> Directory \<Rightarrow> World
     \<Rightarrow> (Directory \<times> error option) res \<times> World" where
  "crawlDir c r properties w =
     (let l = protocol_Ls c r in
      case processDirEntries c (received l) (last_select l) properties w of
        (Panic m, w') \<Rightarrow> (Panic m, w')
      | (Ret (properties', err), w') \<Rightarrow> (Ret (properties', errgroup_Wait l err), w'))"

definition getDirectoryProperties ::
  "Crawler \<Rightarrow> AnnotatedResource \<Rightarrow> World \<Rightarrow> (Properties \<times> error option) res \<times> World" where
  "getDirectoryProperties c r w =
     (let d = makeDocument r w;
          properties = \<lparr>FirstSeen = FirstSeen d, LastSeen = LastSeen d,
                        References = References d, DocSize = DocSize d, Links = []\<rparr>
      in case crawlDir c r properties w of
           (Panic m, w') \<Rightarrow> (Panic m, w')
         | (Ret (properties', err), w') \<Rightarrow> (Ret (DirectoryProperties properties', err), w'))"

text \<open>
  \<open>getProperties\<close> returns the index to write to (nil for an unsupported type), the
  properties and an error.
\<close>

definition getProperties ::
  "Crawler \<Rightarrow> AnnotatedResource \<Rightarrow> World
     \<Rightarrow> (Index option \<times> Properties \<times> error option) res \<times> World" where
  "getProperties c r w =
     (case Type r of
        FileType \<Rightarrow>
          (case getFileProperties c r w of (f, err) \<Rightarrow> (Ret (Some Files, f, err), w))
      | DirectoryType \<Rightarrow>
          (case getDirectoryProperties c r w of
             (Panic m, w') \<Rightarrow> (Panic m, w')
           | (Ret (d, err), w') \<Rightarrow> (Ret (Some Directories, d, err), w'))
      | UnsupportedType \<Rightarrow> (Ret (None, NoProperties, Some ErrUnsupportedType), w)
      | PartialType \<Rightarrow> (Ret (Some Partials, PartialProperties, None), w)
      | UndefinedType \<Rightarrow> (Panic ''undefined type after Stat call'', w)
      | OtherType n \<Rightarrow> (Panic ''unexpected type'', w))"

text \<open>
  \<open>index\<close>: an error in the chain of \<open>ErrInvalidResource\<close> is written to the \<open>Invalids\<close>
  index, any other error is returned, and without an error the properties are written to
  the index of the type. (A call on a nil index is a nil dereference.)
\<close>

definition index ::
  "Crawler \<Rightarrow> AnnotatedResource \<Rightarrow> World \<Rightarrow> error option res \<times> World" where
  "index c r w =
     (case getProperties c r w of
        (Panic m, w') \<Rightarrow> (Panic m, w')
      | (Ret (idx, properties, err), w') \<Rightarrow>
          (case err of
             Some e \<Rightarrow>
               if errors_Is err ErrInvalidResource then returns (indexInvalid c r e w')
               else (Ret err, w')
           | None \<Rightarrow>
               (case idx of
                  None \<Rightarrow> (Panic ''nil pointer dereference'', w')
                | Some i \<Rightarrow> returns (Index_Index c i (ID r) properties w'))))"

section \<open>Existing items\<close>

text \<open>The loop of \<open>appendReference\<close>: is the reference among the indexed ones?\<close>

fun appendReference_loop :: "IndexReference list \<Rightarrow> Reference \<Rightarrow> AnnotatedResource \<Rightarrow> bool" where
  "appendReference_loop [] r parent = False"
| "appendReference_loop (indexedRef # refs) r parent =
     (if ParentHash indexedRef = ID parent \<and> RefName indexedRef = Name r then True
      else appendReference_loop refs r parent)"

definition appendReference ::
  "IndexReference list \<Rightarrow> Reference \<Rightarrow> IndexReference list \<times> bool" where
  "appendReference refs r =
     (case Parent r of
        None \<Rightarrow> (refs, False)
      | Some parent \<Rightarrow>
          if appendReference_loop refs r parent then (refs, False)
          else (refs @ [\<lparr>ParentHash = ID parent, RefName = Name r\<rparr>], True))"

text \<open>
  \<open>updateExisting\<close>. The sniffer branch compares with the truncated \<open>now\<close>; the panic
  message of the default branch is cut to its fixed words.
\<close>

definition updateExisting ::
  "Crawler \<Rightarrow> existingItem \<Rightarrow> World \<Rightarrow> error option res \<times> World" where
  "updateExisting c i w =
     (let sniffed =
        (let now = Truncate_Second (time_Now w);
             isRecent =
               (case ei_LastSeen i of
                  None \<Rightarrow> True
                | Some lastSeen \<Rightarrow> time_Sub now lastSeen > MinUpdateAge (config c))
         in if isRecent
            then returns (Index_Update c (ei_Index i) (ID (ei_AnnotatedResource i))
                   \<lparr>upd_LastSeen = Some now, upd_References = []\<rparr> w)
            else (Ret None, w))
      in case Source (ei_AnnotatedResource i) of
           DirectorySource \<Rightarrow>
             (case appendReference (ei_References i) (Reference (ei_AnnotatedResource i)) of
                (refs, refsUpdated) \<Rightarrow>
                  if refsUpdated
                  then returns (Index_Update c (ei_Index i) (ID (ei_AnnotatedResource i))
                         \<lparr>upd_LastSeen = None, upd_References = refs\<rparr> w)
                  else (Ret None, w))
         | SnifferSource \<Rightarrow> sniffed
         | UnknownSource \<Rightarrow> sniffed
         | ManualSource \<Rightarrow> (Ret None, w)
         | UserSource \<Rightarrow> (Ret None, w)
         | OtherSource n \<Rightarrow> (Panic ''Unexpected source'', w))"

definition deletePartial :: "Crawler \<Rightarrow> existingItem \<Rightarrow> World \<Rightarrow> error option \<times> World" where
  "deletePartial c i w = Index_Delete c Partials (ID (ei_AnnotatedResource i)) w"

definition processPartial ::
  "Crawler \<Rightarrow> existingItem \<Rightarrow> World \<Rightarrow> (bool \<times> error option) \<times> World" where
  "processPartial c i w =
     (case Parent (Reference (ei_AnnotatedResource i)) of
        None \<Rightarrow> ((True, None), w)
      | Some parent \<Rightarrow>
          (case deletePartial c i w of
             (Some err, w') \<Rightarrow> ((True, Some err), w')
           | (None, w') \<Rightarrow> ((False, None), w')))"

definition processExisting ::
  "Crawler \<Rightarrow> existingItem \<Rightarrow> World \<Rightarrow> (bool \<times> error option) res \<times> World" where
  "processExisting c i w =
     (case ei_Index i of
        Invalids \<Rightarrow> (Ret (True, None), w)
      | Partials \<Rightarrow> returns (processPartial c i w)
      | _ \<Rightarrow>
          (case updateExisting c i w of
             (Panic m, w') \<Rightarrow> (Panic m, w')
           | (Ret (Some err), w') \<Rightarrow> (Ret (True, Some err), w')
           | (Ret None, w') \<Rightarrow> (Ret (True, None), w')))"

text \<open>
  Modelled from the spec: \<open>getExistingItem\<close> is not among the sources. It asks the
  bulk getter for the id across the four indexes and returns which index (if any) has it,
  with its \<open>References\<close> and \<open>LastSeen\<close>; a failure of the backend is returned as the error.
\<close>

definition getExistingItem ::
  "Crawler \<Rightarrow> AnnotatedResource \<Rightarrow> World \<Rightarrow> (existingItem option \<times> error option) \<times> World" where
  "getExistingItem c r w =
     (let w' = w\<lparr>calls := calls w @ [MultiGet (ID r)]\<rparr> in
      case indexes_MultiGet c (ID r) of
        Inl err \<Rightarrow> ((None, Some err), w')
      | Inr None \<Rightarrow> ((None, None), w')
      | Inr (Some (i, u)) \<Rightarrow>
          ((Some \<lparr>ei_AnnotatedResource = r, ei_Index = i,
                   ei_References = upd_References u, ei_LastSeen = upd_LastSeen u\<rparr>, None), w'))"

definition updateMaybeExisting ::
  "Crawler \<Rightarrow> AnnotatedResource \<Rightarrow> World \<Rightarrow> (bool \<times> error option) res \<times> World" where
  "updateMaybeExisting c r w =
     (case getExistingItem c r w of
        ((existing, Some err), w') \<Rightarrow> (Ret (False, Some err), w')
      | ((Some existing, None), w') \<Rightarrow> processExisting c existing w'
      | ((None, None), w') \<Rightarrow> (Ret (False, None), w'))"

section \<open>The crawler's entry point\<close>

definition isSupportedType :: "ResourceType \<Rightarrow> bool" where
  "isSupportedType rType =
     (case rType of
        UndefinedType \<Rightarrow> True
      | FileType \<Rightarrow> True
      | DirectoryType \<Rightarrow> True
      | _ \<Rightarrow> False)"

text \<open>\<open>ensureType\<close>: \<open>protocol.Stat\<close> fills in the resource, here returned updated.\<close>

definition ensureType ::
  "Crawler \<Rightarrow> AnnotatedResource \<Rightarrow> AnnotatedResource \<times> error option" where
  "ensureType c r =
     (if Type r = UndefinedType then protocol_Stat c r else (r, None))"

definition Crawl ::
  "Crawler \<Rightarrow> AnnotatedResource \<Rightarrow> World \<Rightarrow> error option res \<times> World" where
  "Crawl c r w =
     (if Protocol r = InvalidProtocol then (Panic ''invalid protocol'', w)
      else if \<not> isSupportedType (Type r) then (Panic ''invalid type for crawler'', w)
      else
        case updateMaybeExisting c r w of
          (Panic m, w1) \<Rightarrow> (Panic m, w1)
        | (Ret (exists, Some err), w1) \<Rightarrow> (Ret (Some err), w1)
        | (Ret (exists, None), w1) \<Rightarrow>
            if exists then (Ret None, w1)
            else
              (case ensureType c r of
                 (r', Some err) \<Rightarrow>
                   if errors_Is (Some err) ErrInvalidResource
                   then returns (indexInvalid c r' err w1)
                   else (Ret (Some err), w1)
               | (r', None) \<Rightarrow> index c r' w1))"

section \<open>The event source of the sniffer (components/sniffer/eventsource)\<close>

type_synonym Key = string

record EvtProviderPut =
  CID :: string
  PeerID :: string

text \<open>
  The event source. The helpers \<open>isProviderKey\<close>, \<open>keyToCID\<close> and \<open>keyToPeerID\<close> are
  not among the sources and are taken as parameters, each returning what the Go function
  returns (a value and an error); \<open>emitter_Emit\<close> is what the bus answers to an event.
\<close>

record EventSource =
  isProviderKey :: "Key \<Rightarrow> bool"
  keyToCID :: "Key \<Rightarrow> string \<times> error option"
  keyToPeerID :: "Key \<Rightarrow> string \<times> error option"
  emitter_Emit :: "EvtProviderPut \<Rightarrow> error option"

text \<open>What \<open>afterPut\<close> acts on: the events on the bus and the span of the call.\<close>

record Bus =
  emitted :: "EvtProviderPut list"
  recorded :: "error list"
  status_ok :: bool

definition span_RecordError :: "error \<Rightarrow> Bus \<Rightarrow> Bus" where
  "span_RecordError e b = b\<lparr>recorded := recorded b @ [e]\<rparr>"

text \<open>
  \<open>afterPut\<close>. The parameter \<open>err\<close> is assigned again by \<open>cid, err := keyToCID(k)\<close> and
  \<open>pid, err := keyToPeerID(k)\<close>; the error of \<open>Emit\<close> is a variable of the \<open>if\<close> statement
  only, so the last \<open>return err\<close> returns what \<open>keyToPeerID\<close> returned.
\<close>

definition afterPut ::
  "EventSource \<Rightarrow> Key \<Rightarrow> 8 word list \<Rightarrow> error option \<Rightarrow> Bus \<Rightarrow> error option \<times> Bus" where
  "afterPut s k v err b =
     (case err of
        Some e \<Rightarrow> (err, span_RecordError e b)
      | None \<Rightarrow>
          if \<not> isProviderKey s k
          then (None, span_RecordError (ExternalError ''Non-provider key'') b)
          else
            (case keyToCID s k of
               (cid, Some e) \<Rightarrow>
                 (None, span_RecordError (Errorf_w (''cid from key '' @ [CHR 0x27] @ k @ [CHR 0x27]) e) b)
             | (cid, None) \<Rightarrow>
                 (case keyToPeerID s k of
                    (pid, Some e) \<Rightarrow>
                      (None, span_RecordError (Errorf_w (''pid from key '' @ [CHR 0x27] @ k @ [CHR 0x27]) e) b)
                  | (pid, err') \<Rightarrow>
                      (let e = \<lparr>CID = cid, PeerID = pid\<rparr> in
                       case emitter_Emit s e of
                         Some emitErr \<Rightarrow> (err', span_RecordError emitErr b)
                       | None \<Rightarrow> (err', b\<lparr>emitted := emitted b @ [e], status_ok := True\<rparr>)))))"

section \<open>Vocabulary of the properties\<close>

text \<open>
  The definitions of this section belong to the statements, not to the program.
  \<open>clear\<close> empties the log of calls and \<open>prepend\<close> puts calls in front of the log of a result:
  a run of the crawler only appends to the log.
\<close>

definition clear :: "World \<Rightarrow> World" where
  "clear w = w\<lparr>calls := []\<rparr>"

definition prepend :: "Call list \<Rightarrow> 'a \<times> World \<Rightarrow> 'a \<times> World" where
  "prepend xs x = (fst x, (snd x)\<lparr>calls := xs @ calls (snd x)\<rparr>)"

text \<open>
  What \<open>queueDirEntry\<close> does with a child when no call fails: the call made for an entry of
  each type \<open>protocol.Ls\<close> can list (\<open>listable\<close>), and the priorities drawn for \<open>k\<close>
  successive children, one draw of the random source each.
\<close>

definition dispatched :: "AnnotatedResource \<Rightarrow> 8 word \<Rightarrow> Call" where
  "dispatched e priority =
     (case Type e of
        UnsupportedType \<Rightarrow> IndexCall Invalids (ID e) (InvalidProperties (Error ErrUnsupportedType))
      | FileType \<Rightarrow> PublishCall FilesQueue e priority
      | DirectoryType \<Rightarrow> PublishCall DirectoriesQueue e priority
      | _ \<Rightarrow> PublishCall HashesQueue e priority)"

definition priorities :: "World \<Rightarrow> nat \<Rightarrow> 8 word list" where
  "priorities w k = map (\<lambda>j. of_nat (1 + rand_source w j mod 7)) [draws w..<draws w + k]"

definition listable :: "AnnotatedResource \<Rightarrow> bool" where
  "listable e = (Type e = UndefinedType \<or> Type e = FileType \<or> Type e = DirectoryType \<or> Type e = UnsupportedType)"

section \<open>Example inputs\<close>

definition example_config :: Config where
  "example_config =
     \<lparr>DirEntryBufferSize = 8192, MinUpdateAge = 3600000000000, StatTimeout = 60000000000,
      DirEntryTimeout = 60000000000, MaxDirSize = 3\<rparr>"

definition example_world :: World where
  "example_world = \<lparr>calls = [], rand_source = (\<lambda>n. 3 * n + 5), draws = 0, clock = 1700000000987654321\<rparr>"

definition example_parent :: AnnotatedResource where
  "example_parent =
     AnnotatedResource IPFSProtocol ''QmP2'' SnifferSource (Ref None []) DirectoryType 0"

definition example_child :: "string \<Rightarrow> string \<Rightarrow> ResourceType \<Rightarrow> AnnotatedResource" where
  "example_child cid name rType =
     AnnotatedResource IPFSProtocol cid DirectorySource (Ref (Some example_parent) name) rType 100"

definition example_crawler :: Crawler where
  "example_crawler =
     \<lparr>config = example_config,
      indexes = (\<lambda>k. None),
      indexes_MultiGet = (\<lambda>cid. Inr None),
      queues = (\<lambda>k. None),
      protocol_Stat = (\<lambda>r. (r, None)),
      protocol_Ls = (\<lambda>r. \<lparr>received = [], last_select = Closed, ls_return = None, ls_first = False\<rparr>),
      extractors = []\<rparr>"

definition example_eventSource :: EventSource where
  "example_eventSource =
     \<lparr>isProviderKey = (\<lambda>k. take 11 k = ''/providers/''),
      keyToCID = (\<lambda>k. (''QmA'', None)),
      keyToPeerID = (\<lambda>k. (''12D3KooW'', None)),
      emitter_Emit = (\<lambda>e. Some (ExternalError ''emitter is closed''))\<rparr>"

definition example_bus :: Bus where
  "example_bus = \<lparr>emitted = [], recorded = [], status_ok = False\<rparr>"

definition example_existing :: "SourceType \<Rightarrow> Time option \<Rightarrow> existingItem" where
  "example_existing src lastSeen =
     \<lparr>ei_AnnotatedResource =
        AnnotatedResource IPFSProtocol ''QmD'' src (Ref (Some example_parent) ''b'') UndefinedType 0,
      ei_Index = Directories,
      ei_References = [\<lparr>ParentHash = ''QmP1'', RefName = ''a''\<rparr>],
      ei_LastSeen = lastSeen\<rparr>"

definition example_entries :: "AnnotatedResource list" where
  "example_entries =
     [example_child ''QmC1'' ''a.txt'' FileType,
      example_child ''QmC2'' ''b.txt'' FileType,
      example_child ''QmC3'' ''sub'' DirectoryType,
      example_child ''QmC4'' ''c'' UndefinedType,
      example_child ''QmC5'' ''dev'' UnsupportedType]"

definition example_dir_crawler :: "64 word \<Rightarrow> AnnotatedResource list \<Rightarrow> Crawler" where
  "example_dir_crawler m es =
     example_crawler
       \<lparr>config := example_config\<lparr>MaxDirSize := m\<rparr>,
        protocol_Ls :=
          (\<lambda>r. \<lparr>received = es, last_select = Closed, ls_return = None, ls_first = False\<rparr>)\<rparr>"

definition example_failing_extractor :: Extractor where
  "example_failing_extractor r f = (Some (ExternalError ''tika: connection refused''), f)"

definition example_nsfw_extractor :: Extractor where
  "example_nsfw_extractor r f = (None, f\<lparr>Metadata := Metadata f @ [(''nsfw'', ''0.02'')]\<rparr>)"

section \<open>The log of calls is only extended\<close>

lemma prepend_simps [simp]:
  "prepend xs (a, w) = (a, w\<lparr>calls := xs @ calls w\<rparr>)"
  by (simp add: prepend_def)

lemma prepend_prepend: "prepend xs (prepend ys x) = prepend (xs @ ys) x"
  by (simp add: prepend_def)

lemma clear_prepend [simp]: "clear (w\<lparr>calls := xs\<rparr>) = clear w"
  by (simp add: clear_def)

lemma clear_simps [simp]: "calls (clear w) = []" "draws (clear w) = draws w"
  "rand_source (clear w) = rand_source w" "clock (clear w) = clock w"
  by (simp_all add: clear_def)

lemma unclear [simp]: "(clear w)\<lparr>calls := calls w\<rparr> = w"
  by (simp add: clear_def)

lemma Index_Index_frame: "Index_Index c i cid p w = prepend (calls w) (Index_Index c i cid p (clear w))"
  by (simp add: Index_Index_def clear_def)

lemma Queue_Publish_frame: "Queue_Publish c q r p w = prepend (calls w) (Queue_Publish c q r p (clear w))"
  by (simp add: Queue_Publish_def clear_def)

lemma indexInvalid_frame: "indexInvalid c r e w = prepend (calls w) (indexInvalid c r e (clear w))"
  by (simp add: indexInvalid_def Index_Index_def clear_def)

lemma returns_prepend: "returns (prepend xs x) = prepend xs (returns x)"
  by (simp add: returns_def prepend_def)

lemma queueDirEntry_frame:
  "queueDirEntry c r w = prepend (calls w) (queueDirEntry c r (clear w))"
  by (cases "Type r")
     (simp_all add: queueDirEntry_def rand_Intn_def Let_def returns_def Queue_Publish_def
        indexInvalid_def Index_Index_def clear_def)

lemma processDirEntries_loop_frame:
  "processDirEntries_loop c es fin n l p w =
     prepend (calls w) (processDirEntries_loop c es fin n l p (clear w))"
proof (induction es arbitrary: n l p w)
  case Nil
  then show ?case by (cases fin) (simp_all add: clear_def)
next
  case (Cons e es)
  obtain res w1 where q: "queueDirEntry c e (clear w) = (res, w1)"
    by (cases "queueDirEntry c e (clear w)")
  have q': "queueDirEntry c e w = (res, w1\<lparr>calls := calls w @ calls w1\<rparr>)"
    using queueDirEntry_frame [of c e w] q by simp
  have step: "processDirEntries_loop c es fin n' l' p' (w1\<lparr>calls := calls w @ calls w1\<rparr>) =
      prepend (calls w) (processDirEntries_loop c es fin n' l' p' w1)" for n' l' p'
    using Cons.IH [of n' l' p' "w1\<lparr>calls := calls w @ calls w1\<rparr>"] Cons.IH [of n' l' p' w1]
    by (simp add: prepend_prepend)
  show ?case
    by (simp add: q q' step Let_def split: res.splits option.splits)
qed


lemma priorities_Suc:
  "priorities w (Suc k) =
     of_nat (1 + rand_source w (draws w) mod 7) # priorities (w\<lparr>calls := xs, draws := Suc (draws w)\<rparr>) k"
  by (simp add: priorities_def upt_conv_Cons del: upt_Suc)

lemma priorities_length [simp]: "length (priorities w k) = k"
  by (simp add: priorities_def)

lemma priority_range: "unat (of_nat (1 + x mod 7) :: 8 word) = 1 + x mod 7"
proof -
  have "unat (of_nat (1 + x mod 7) :: 8 word) = (1 + x mod 7) mod 2 ^ LENGTH(8)"
    by (rule unat_of_nat)
  also have "x mod 7 < 7" by simp
  then have "(1 + x mod 7) mod 2 ^ LENGTH(8) = 1 + x mod 7" by simp
  finally show ?thesis .
qed

lemma queueDirEntry_ok:
  assumes "listable e" "\<And>k. queues c k = None" "\<And>k. indexes c k = None"
  shows "queueDirEntry c e w =
     (Ret None, w\<lparr>calls := calls w @ [dispatched e (of_nat (1 + rand_source w (draws w) mod 7))],
                  draws := Suc (draws w)\<rparr>)"
  using assms
  by (auto simp: listable_def queueDirEntry_def rand_Intn_def Let_def returns_def Queue_Publish_def
        indexInvalid_def Index_Index_def dispatched_def)

lemma addLink_ok: "listable e \<Longrightarrow> \<exists>p'. addLink e p = Ret p' \<and> length (Links p') = Suc (length (Links p))"
  by (auto simp: listable_def addLink_def resourceToLinkType_def)

lemma loop_calls:
  assumes "\<forall>e\<in>set es. listable e" "\<And>k. queues c k = None" "\<And>k. indexes c k = None"
  shows "\<exists>p'. processDirEntries_loop c es Closed n l p w =
     (Ret (errEndOfLs, l \<or> (\<exists>i<length es. n + of_nat i = MaxDirSize (config c)), p'),
      w\<lparr>calls := calls w @ map2 dispatched es (priorities w (length es)),
        draws := draws w + length es\<rparr>)
     \<and> (\<not> l \<and> (\<forall>i<length es. n + of_nat i \<noteq> MaxDirSize (config c)) \<longrightarrow>
          length (Links p') = length (Links p) + length es)"
  using assms(1)
proof (induction es arbitrary: n l p w)
  case Nil
  then show ?case by (simp add: priorities_def)
next
  case (Cons e es)
  let ?M = "MaxDirSize (config c)"
  let ?l' = "if n = ?M then True else l"
  have le: "listable e" and les: "\<forall>e\<in>set es. listable e" using Cons.prems by simp_all
  obtain pl where pl: "addLink e p = Ret pl" "length (Links pl) = Suc (length (Links p))"
    using addLink_ok [OF le] by blast
  let ?p1 = "if \<not> ?l' then pl else p"
  let ?w1 = "w\<lparr>calls := calls w @ [dispatched e (of_nat (1 + rand_source w (draws w) mod 7))],
                  draws := Suc (draws w)\<rparr>"
  from Cons.IH [OF les, of "n + 1" ?l' ?p1 ?w1]
  obtain p' where IH: "processDirEntries_loop c es Closed (n + 1) ?l' ?p1 ?w1 =
     (Ret (errEndOfLs, ?l' \<or> (\<exists>i<length es. n + 1 + of_nat i = ?M), p'),
      ?w1\<lparr>calls := calls ?w1 @ map2 dispatched es (priorities ?w1 (length es)),
        draws := draws ?w1 + length es\<rparr>)"
    and IHl: "\<not> ?l' \<and> (\<forall>i<length es. n + 1 + of_nat i \<noteq> ?M) \<longrightarrow>
          length (Links p') = length (Links ?p1) + length es"
    by blast
  have ex: "(?l' \<or> (\<exists>i<length es. n + 1 + of_nat i = ?M)) =
            (l \<or> (\<exists>i<length (e # es). n + of_nat i = ?M))"
  proof -
    have "(\<exists>i<Suc (length es). n + of_nat i = ?M) =
          (n = ?M \<or> (\<exists>i<length es. n + of_nat (Suc i) = ?M))"
      by (auto simp: less_Suc_eq_0_disj)
    then show ?thesis by (auto simp: add.assoc)
  qed
  have unfold: "processDirEntries_loop c (e # es) Closed n l p w =
      processDirEntries_loop c es Closed (n + 1) ?l' ?p1 ?w1"
    using pl(1) queueDirEntry_ok [OF le assms(2,3)]
    by (simp add: Let_def)
  have "processDirEntries_loop c (e # es) Closed n l p w =
     (Ret (errEndOfLs, l \<or> (\<exists>i<length (e # es). n + of_nat i = ?M), p'),
      w\<lparr>calls := calls w @ map2 dispatched (e # es) (priorities w (length (e # es))),
        draws := draws w + length (e # es)\<rparr>)"
    unfolding unfold IH ex
    by (simp add: priorities_Suc [of w _ "calls w @ [dispatched e (of_nat (1 + rand_source w (draws w) mod 7))]"])
  moreover have "\<not> l \<and> (\<forall>i<length (e # es). n + of_nat i \<noteq> ?M) \<longrightarrow>
          length (Links p') = length (Links p) + length (e # es)"
  proof
    assume a: "\<not> l \<and> (\<forall>i<length (e # es). n + of_nat i \<noteq> ?M)"
    then have n0: "n \<noteq> ?M" by (auto dest: spec [of _ 0])
    have "\<forall>i<length es. n + 1 + of_nat i \<noteq> ?M"
    proof (intro allI impI)
      fix i assume "i < length es"
      then have "n + of_nat (Suc i) \<noteq> ?M" using a by auto
      then show "n + 1 + of_nat i \<noteq> ?M" by (simp add: add.assoc)
    qed
    with IHl a n0 have "length (Links p') = length (Links ?p1) + length es" by simp
    with a n0 pl(2) show "length (Links p') = length (Links p) + length (e # es)" by simp
  qed
  ultimately show ?case by blast
qed

lemma large_iff: "(\<exists>i<k. (of_nat i :: 64 word) = M) \<longleftrightarrow> unat M < k"
proof
  assume "\<exists>i<k. (of_nat i :: 64 word) = M"
  then obtain i where i: "i < k" "(of_nat i :: 64 word) = M" by blast
  have "unat (of_nat i :: 64 word) \<le> i" by (simp add: unat_of_nat)
  with i show "unat M < k" by simp
next
  assume "unat M < k"
  then show "\<exists>i<k. (of_nat i :: 64 word) = M" by (intro exI [of _ "unat M"]) simp
qed


lemma processDirEntries_frame:
  "processDirEntries c es fin p w = prepend (calls w) (processDirEntries c es fin p (clear w))"
proof -
  obtain a w1 where l: "processDirEntries_loop c es fin 0 False p (clear w) = (a, w1)"
    by (cases "processDirEntries_loop c es fin 0 False p (clear w)")
  then have "processDirEntries_loop c es fin 0 False p w = (a, w1\<lparr>calls := calls w @ calls w1\<rparr>)"
    using processDirEntries_loop_frame [of c es fin 0 False p w] by simp
  with l show ?thesis
    by (simp add: processDirEntries_def split: res.splits prod.splits)
qed

lemma crawlDir_frame:
  "crawlDir c r p w = prepend (calls w) (crawlDir c r p (clear w))"
proof -
  let ?l = "protocol_Ls c r"
  obtain a w1 where l: "processDirEntries c (received ?l) (last_select ?l) p (clear w) = (a, w1)"
    by (cases "processDirEntries c (received ?l) (last_select ?l) p (clear w)")
  then have "processDirEntries c (received ?l) (last_select ?l) p w = (a, w1\<lparr>calls := calls w @ calls w1\<rparr>)"
    using processDirEntries_frame [of c "received ?l" "last_select ?l" p w] by simp
  with l show ?thesis
    by (simp add: crawlDir_def Let_def split: res.splits prod.splits)
qed

lemma makeDocument_clear [simp]: "makeDocument r (clear w) = makeDocument r w"
  by (simp add: makeDocument_def time_Now_def)

lemma getFileProperties_clear [simp]: "getFileProperties c r (clear w) = getFileProperties c r w"
  by (simp add: getFileProperties_def)

lemma getDirectoryProperties_frame:
  "getDirectoryProperties c r w = prepend (calls w) (getDirectoryProperties c r (clear w))"
proof -
  define p where "p = \<lparr>FirstSeen = FirstSeen (makeDocument r w), LastSeen = LastSeen (makeDocument r w),
      References = References (makeDocument r w), DocSize = DocSize (makeDocument r w), Links = []\<rparr>"
  obtain a w1 where l: "crawlDir c r p (clear w) = (a, w1)"
    by (cases "crawlDir c r p (clear w)")
  then have "crawlDir c r p w = (a, w1\<lparr>calls := calls w @ calls w1\<rparr>)"
    using crawlDir_frame [of c r p w] by simp
  with l show ?thesis
    by (simp add: getDirectoryProperties_def Let_def p_def split: res.splits prod.splits)
qed

lemma getProperties_frame:
  "getProperties c r w = prepend (calls w) (getProperties c r (clear w))"
proof (cases "Type r")
  case DirectoryType
  obtain a w1 where l: "getDirectoryProperties c r (clear w) = (a, w1)"
    by (cases "getDirectoryProperties c r (clear w)")
  then have "getDirectoryProperties c r w = (a, w1\<lparr>calls := calls w @ calls w1\<rparr>)"
    using getDirectoryProperties_frame [of c r w] by simp
  with l DirectoryType show ?thesis
    by (simp add: getProperties_def split: res.splits prod.splits)
qed (simp_all add: getProperties_def split: prod.splits)

lemma index_frame: "index c r w = prepend (calls w) (index c r (clear w))"
proof -
  obtain a w1 where l: "getProperties c r (clear w) = (a, w1)"
    by (cases "getProperties c r (clear w)")
  then have l': "getProperties c r w = (a, w1\<lparr>calls := calls w @ calls w1\<rparr>)"
    using getProperties_frame [of c r w] by simp
  have i: "indexInvalid c r e (w1\<lparr>calls := calls w @ calls w1\<rparr>) = prepend (calls w) (indexInvalid c r e w1)" for e
    by (simp add: indexInvalid_def Index_Index_def)
  have j: "Index_Index c i cid pr (w1\<lparr>calls := calls w @ calls w1\<rparr>) = prepend (calls w) (Index_Index c i cid pr w1)" for i cid pr
    by (simp add: Index_Index_def)
  show ?thesis
    by (simp add: index_def l l' i j returns_prepend split: res.splits prod.splits option.splits)
qed

lemma index_calls: "\<exists>ys. calls (snd (index c r w)) = calls w @ ys"
  by (subst index_frame) (simp add: prepend_def)

lemma updateExisting_calls: "\<exists>ys. calls (snd (updateExisting c i w)) = calls w @ ys"
  by (cases "Source (ei_AnnotatedResource i)")
     (simp_all add: updateExisting_def Index_Update_def returns_def Let_def split: prod.splits)

lemma processPartial_calls: "\<exists>ys. calls (snd (processPartial c i w)) = calls w @ ys"
  by (simp add: processPartial_def deletePartial_def Index_Delete_def split: option.splits)

lemma processExisting_calls: "\<exists>ys. calls (snd (processExisting c i w)) = calls w @ ys"
proof (cases "ei_Index i")
  case Partials
  then show ?thesis using processPartial_calls [of c i w]
    by (simp add: processExisting_def returns_def)
next
  case Invalids
  then show ?thesis by (simp add: processExisting_def)
next
  case Files
  obtain a w1 where u: "updateExisting c i w = (a, w1)" by (cases "updateExisting c i w")
  with updateExisting_calls [of c i w] Files show ?thesis
    by (auto simp: processExisting_def split: res.splits option.splits)
next
  case Directories
  obtain a w1 where u: "updateExisting c i w = (a, w1)" by (cases "updateExisting c i w")
  with updateExisting_calls [of c i w] Directories show ?thesis
    by (auto simp: processExisting_def split: res.splits option.splits)
qed

lemma updateMaybeExisting_calls:
  "\<exists>ys. calls (snd (updateMaybeExisting c r w)) = calls w @ MultiGet (ID r) # ys"
proof (cases "indexes_MultiGet c (ID r)")
  case (Inl e)
  then show ?thesis by (simp add: updateMaybeExisting_def getExistingItem_def Let_def)
next
  case (Inr found)
  show ?thesis
  proof (cases found)
    case None
    with Inr show ?thesis by (simp add: updateMaybeExisting_def getExistingItem_def Let_def)
  next
    case (Some iu)
    obtain i u where iu: "iu = (i, u)" by (cases iu)
    let ?i = "\<lparr>ei_AnnotatedResource = r, ei_Index = i, ei_References = upd_References u,
               ei_LastSeen = upd_LastSeen u\<rparr>"
    let ?w = "w\<lparr>calls := calls w @ [MultiGet (ID r)]\<rparr>"
    have "updateMaybeExisting c r w = processExisting c ?i ?w"
      using Inr Some iu by (simp add: updateMaybeExisting_def getExistingItem_def Let_def)
    then show ?thesis using processExisting_calls [of c ?i ?w] by auto
  qed
qed


section \<open>The event source\<close>

text \<open>
  C9: \<open>afterPut\<close> returns the original write error unchanged when it is non-nil, and emits
  no event then; in every other case it returns nil: for a key that is not a provider key,
  when the CID or the peer id cannot be parsed from the key, and when emitting the event
  fails. Parse and emit failures are recorded on the span and not returned.
\<close>

theorem afterPut_returns_original_error:
  "fst (afterPut s k v err b) = err \<and>
   (err \<noteq> None \<longrightarrow> emitted (snd (afterPut s k v err b)) = emitted b) \<and>
   (err = None \<and> \<not> isProviderKey s k \<longrightarrow>
      fst (afterPut s k v err b) = None \<and> emitted (snd (afterPut s k v err b)) = emitted b) \<and>
   (err = None \<and> isProviderKey s k \<and> snd (keyToCID s k) = Some e \<longrightarrow>
      fst (afterPut s k v err b) = None \<and> emitted (snd (afterPut s k v err b)) = emitted b \<and>
      recorded (snd (afterPut s k v err b)) =
        recorded b @ [Errorf_w (''cid from key '' @ [CHR 0x27] @ k @ [CHR 0x27]) e]) \<and>
   (err = None \<and> isProviderKey s k \<and> snd (keyToCID s k) = None \<and> snd (keyToPeerID s k) = Some e \<longrightarrow>
      fst (afterPut s k v err b) = None \<and> emitted (snd (afterPut s k v err b)) = emitted b \<and>
      recorded (snd (afterPut s k v err b)) =
        recorded b @ [Errorf_w (''pid from key '' @ [CHR 0x27] @ k @ [CHR 0x27]) e]) \<and>
   (err = None \<and> isProviderKey s k \<and> snd (keyToCID s k) = None \<and> snd (keyToPeerID s k) = None \<and>
    emitter_Emit s \<lparr>CID = fst (keyToCID s k), PeerID = fst (keyToPeerID s k)\<rparr> = Some e \<longrightarrow>
      fst (afterPut s k v err b) = None \<and> emitted (snd (afterPut s k v err b)) = emitted b \<and>
      recorded (snd (afterPut s k v err b)) = recorded b @ [e])"
proof -
  have ret: "fst (afterPut s k v err b) = err"
    by (auto simp: afterPut_def Let_def split: option.splits prod.splits)
  have rest: "?thesis" if "fst (afterPut s k v err b) = err"
    using that
    by (cases "keyToCID s k"; cases "keyToPeerID s k")
       (auto simp: afterPut_def Let_def span_RecordError_def split: option.splits)
  from rest [OF ret] show ?thesis .
qed

theorem afterPut_returns_original_error_witness:
  "fst (afterPut example_eventSource ''/providers/CIQA/CIQB'' [] None example_bus) = None \<and>
   emitted (snd (afterPut example_eventSource ''/providers/CIQA/CIQB'' [] None example_bus)) = [] \<and>
   recorded (snd (afterPut example_eventSource ''/providers/CIQA/CIQB'' [] None example_bus)) =
     [ExternalError ''emitter is closed'']"
  using afterPut_returns_original_error
    [of example_eventSource "''/providers/CIQA/CIQB''" "[]" None example_bus "ExternalError ''emitter is closed''"]
  by (simp add: example_eventSource_def example_bus_def)

section \<open>Panics of the crawler\<close>

lemma queueDirEntry_panic: "queueDirEntry c r w = (Panic m, w') \<Longrightarrow> m = ''unexpected type''"
  by (cases "Type r")
     (auto simp: queueDirEntry_def rand_Intn_def Let_def returns_def split: prod.splits)

lemma addLink_panic: "addLink e p = Panic m \<Longrightarrow> m = ''unexpected type''"
  by (cases "Type e") (auto simp: addLink_def resourceToLinkType_def)

lemma processDirEntries_loop_panic:
  "processDirEntries_loop c es fin n l p w = (Panic m, w') \<Longrightarrow> m = ''unexpected type''"
proof (induction es arbitrary: n l p w)
  case Nil
  then show ?case by (cases fin) simp_all
next
  case (Cons e es)
  obtain a w1 where q: "queueDirEntry c e w = (a, w1)" by (cases "queueDirEntry c e w")
  show ?case
  proof (cases a)
    case (Panic m')
    with q queueDirEntry_panic [of c e w m' w1] Cons.prems show ?thesis
      by (auto simp: Let_def split: res.splits if_splits dest: addLink_panic)
  next
    case (Ret err)
    with q Cons.prems Cons.IH show ?thesis
      by (auto simp: Let_def split: res.splits if_splits option.splits dest: addLink_panic)
  qed
qed

lemma processDirEntries_panic:
  "processDirEntries c es fin p w = (Panic m, w') \<Longrightarrow> m = ''unexpected type''"
  by (auto simp: processDirEntries_def split: prod.splits res.splits
      dest: processDirEntries_loop_panic)

lemma crawlDir_panic: "crawlDir c r p w = (Panic m, w') \<Longrightarrow> m = ''unexpected type''"
  by (auto simp: crawlDir_def Let_def split: prod.splits res.splits dest: processDirEntries_panic)

lemma getDirectoryProperties_panic:
  "getDirectoryProperties c r w = (Panic m, w') \<Longrightarrow> m = ''unexpected type''"
  by (auto simp: getDirectoryProperties_def Let_def split: prod.splits res.splits
      dest: crawlDir_panic)

lemma getProperties_panic:
  "getProperties c r w = (Panic m, w') \<Longrightarrow>
     m = ''unexpected type'' \<or> m = ''undefined type after Stat call''"
  by (cases "Type r")
     (auto simp: getProperties_def split: prod.splits res.splits dest: getDirectoryProperties_panic)

lemma index_panic:
  "index c r w = (Panic m, w') \<Longrightarrow>
     m = ''unexpected type'' \<or> m = ''undefined type after Stat call'' \<or> m = ''nil pointer dereference''"
  by (auto simp: index_def returns_def split: prod.splits res.splits option.splits if_splits
      dest: getProperties_panic)

lemma updateExisting_panic: "updateExisting c i w = (Panic m, w') \<Longrightarrow> m = ''Unexpected source''"
  by (cases "Source (ei_AnnotatedResource i)")
     (auto simp: updateExisting_def returns_def Let_def split: prod.splits if_splits)

lemma processExisting_panic: "processExisting c i w = (Panic m, w') \<Longrightarrow> m = ''Unexpected source''"
  by (cases "ei_Index i")
     (auto simp: processExisting_def returns_def split: prod.splits res.splits option.splits
       dest: updateExisting_panic)

lemma updateMaybeExisting_panic:
  "updateMaybeExisting c r w = (Panic m, w') \<Longrightarrow> m = ''Unexpected source''"
  by (auto simp: updateMaybeExisting_def split: prod.splits option.splits
      dest: processExisting_panic)

lemma Crawl_guarded:
  assumes "Protocol r \<noteq> InvalidProtocol" "isSupportedType (Type r)"
  shows "Crawl c r w =
     (case updateMaybeExisting c r w of
          (Panic m, w1) \<Rightarrow> (Panic m, w1)
        | (Ret (exists, Some err), w1) \<Rightarrow> (Ret (Some err), w1)
        | (Ret (exists, None), w1) \<Rightarrow>
            if exists then (Ret None, w1)
            else
              (case ensureType c r of
                 (r', Some err) \<Rightarrow>
                   if errors_Is (Some err) ErrInvalidResource
                   then returns (indexInvalid c r' err w1)
                   else (Ret (Some err), w1)
               | (r', None) \<Rightarrow> index c r' w1))"
  using assms by (simp add: Crawl_def)

lemma Crawl_panic:
  assumes "Protocol r \<noteq> InvalidProtocol" "isSupportedType (Type r)" "Crawl c r w = (Panic m, w')"
  shows "m \<noteq> ''invalid protocol'' \<and> m \<noteq> ''invalid type for crawler''"
proof -
  obtain a w1 where u: "updateMaybeExisting c r w = (a, w1)" by (cases "updateMaybeExisting c r w")
  show ?thesis
  proof (cases a)
    case (Panic m')
    with u assms updateMaybeExisting_panic [of c r w m' w1] show ?thesis
      by (auto simp: Crawl_guarded)
  next
    case (Ret x)
    obtain ex err where x: "x = (ex, err)" by (cases x)
    obtain r' e' where e: "ensureType c r = (r', e')" by (cases "ensureType c r")
    from assms(3) u Ret x e have
      "ex = False \<and> err = None \<and> e' = None \<and> index c r' w1 = (Panic m, w')"
      by (auto simp: Crawl_guarded [OF assms(1,2)] returns_def split: option.splits if_splits)
    then show ?thesis using index_panic [of c r' w1 m w'] by auto
  qed
qed

lemma Crawl_calls:
  assumes "Protocol r \<noteq> InvalidProtocol" "isSupportedType (Type r)"
  shows "\<exists>rest. calls (snd (Crawl c r w)) = calls w @ MultiGet (ID r) # rest"
proof -
  obtain a w1 where u: "updateMaybeExisting c r w = (a, w1)" by (cases "updateMaybeExisting c r w")
  from updateMaybeExisting_calls [of c r w] u obtain ys where
    ys: "calls w1 = calls w @ MultiGet (ID r) # ys" by auto
  have ext: "\<exists>rest. calls w2 = calls w @ MultiGet (ID r) # rest" if "calls w2 = calls w1 @ zs" for w2 zs
    using that ys by simp
  obtain r' e' where e: "ensureType c r = (r', e')" by (cases "ensureType c r")
  have i1: "\<exists>zs. calls (snd (index c r' w1)) = calls w1 @ zs" by (rule index_calls)
  have i2: "\<exists>zs. calls (snd (indexInvalid c r' x w1)) = calls w1 @ zs" for x
    by (simp add: indexInvalid_def Index_Index_def)
  have "\<exists>zs. calls (snd (Crawl c r w)) = calls w1 @ zs"
    using u e i1 i2
    by (auto simp: Crawl_guarded [OF assms] returns_def split: res.splits option.splits)
  then show ?thesis using ext by blast
qed

section \<open>The guard of Crawl\<close>

text \<open>
  C8: \<open>Crawl\<close> panics, before any read or write on an index (the world is returned as it
  was), for every resource with \<open>Protocol = Invalid\<close> and for every resource whose type is
  not \<open>Undefined\<close>, \<open>File\<close> or \<open>Directory\<close>. For every other resource the guard passes: the
  run goes on to the lookup of the id in the indexes, and whatever it ends with is not one
  of the two panics of the guard.
\<close>

theorem Crawl_guard:
  "(Protocol r = InvalidProtocol \<longrightarrow> Crawl c r w = (Panic ''invalid protocol'', w)) \<and>
   (Protocol r \<noteq> InvalidProtocol \<and> Type r \<notin> {UndefinedType, FileType, DirectoryType} \<longrightarrow>
      Crawl c r w = (Panic ''invalid type for crawler'', w)) \<and>
   (Protocol r \<noteq> InvalidProtocol \<and> Type r \<in> {UndefinedType, FileType, DirectoryType} \<longrightarrow>
      fst (Crawl c r w) \<noteq> Panic ''invalid protocol'' \<and>
      fst (Crawl c r w) \<noteq> Panic ''invalid type for crawler'' \<and>
      (\<exists>rest. calls (snd (Crawl c r w)) = calls w @ MultiGet (ID r) # rest))"
proof (intro conjI impI)
  assume "Protocol r = InvalidProtocol"
  then show "Crawl c r w = (Panic ''invalid protocol'', w)" by (simp add: Crawl_def)
next
  assume "Protocol r \<noteq> InvalidProtocol \<and> Type r \<notin> {UndefinedType, FileType, DirectoryType}"
  then show "Crawl c r w = (Panic ''invalid type for crawler'', w)"
    by (cases "Type r") (simp_all add: Crawl_def isSupportedType_def)
next
  assume a: "Protocol r \<noteq> InvalidProtocol \<and> Type r \<in> {UndefinedType, FileType, DirectoryType}"
  then have s: "isSupportedType (Type r)" by (auto simp: isSupportedType_def)
  have p: "m \<noteq> ''invalid protocol'' \<and> m \<noteq> ''invalid type for crawler''"
    if "fst (Crawl c r w) = Panic m" for m
    using that Crawl_panic [of r c w m "snd (Crawl c r w)"] a s
    by (cases "Crawl c r w") simp
  show "fst (Crawl c r w) \<noteq> Panic ''invalid protocol''" using p by blast
  show "fst (Crawl c r w) \<noteq> Panic ''invalid type for crawler''" using p by blast
  show "\<exists>rest. calls (snd (Crawl c r w)) = calls w @ MultiGet (ID r) # rest"
    using Crawl_calls a s by blast
qed

theorem Crawl_guard_witness:
  "Crawl example_crawler (AnnotatedResource InvalidProtocol ''QmF'' ManualSource (Ref None []) FileType 0)
     example_world = (Panic ''invalid protocol'', example_world) \<and>
   Crawl example_crawler (example_child ''QmX'' ''x'' PartialType) example_world =
     (Panic ''invalid type for crawler'', example_world) \<and>
   Crawl example_crawler (example_child ''QmU'' ''u'' UnsupportedType) example_world =
     (Panic ''invalid type for crawler'', example_world) \<and>
   fst (Crawl example_crawler (example_child ''QmF'' ''f'' FileType) example_world)
     \<noteq> Panic ''invalid type for crawler'' \<and>
   (\<exists>rest. calls (snd (Crawl example_crawler (example_child ''QmF'' ''f'' FileType) example_world)) =
      calls example_world @ MultiGet ''QmF'' # rest)"
  using
    Crawl_guard [of "AnnotatedResource InvalidProtocol ''QmF'' ManualSource (Ref None []) FileType 0"
      example_crawler example_world]
    Crawl_guard [of "example_child ''QmX'' ''x'' PartialType" example_crawler example_world]
    Crawl_guard [of "example_child ''QmU'' ''u'' UnsupportedType" example_crawler example_world]
    Crawl_guard [of "example_child ''QmF'' ''f'' FileType" example_crawler example_world]
  by (simp add: example_child_def)

section \<open>Updating an existing item\<close>

lemma appendReference_loop_iff:
  "appendReference_loop refs r p \<longleftrightarrow> \<lparr>ParentHash = ID p, RefName = Name r\<rparr> \<in> set refs"
  by (induction refs) auto

lemma appendReference_eq:
  "Parent r = Some p \<Longrightarrow>
   appendReference refs r =
     (if \<lparr>ParentHash = ID p, RefName = Name r\<rparr> \<in> set refs then (refs, False)
      else (refs @ [\<lparr>ParentHash = ID p, RefName = Name r\<rparr>], True))"
  by (simp add: appendReference_def appendReference_loop_iff)

text \<open>
  C4: for an existing item seen again with \<open>Source = Directory\<close> (and a parent, whose id
  makes the pair), the new references are the stored ones with the pair
  \<open>(Parent.ID, Name)\<close> appended exactly when the pair was not among them, so a list without
  duplicates stays without duplicates; an update carrying the new references and no
  \<open>LastSeen\<close> is issued exactly when the pair was new, and nothing is issued otherwise.
\<close>

theorem updateExisting_directory_reference:
  assumes "Source (ei_AnnotatedResource i) = DirectorySource"
    and "Parent (Reference (ei_AnnotatedResource i)) = Some parent"
  shows
    "let ref = \<lparr>ParentHash = ID parent, RefName = Name (Reference (ei_AnnotatedResource i))\<rparr>;
         new = fst (appendReference (ei_References i) (Reference (ei_AnnotatedResource i)));
         u = UpdateCall (ei_Index i) (ID (ei_AnnotatedResource i))
               \<lparr>upd_LastSeen = None, upd_References = ei_References i @ [ref]\<rparr>
     in new = (if ref \<in> set (ei_References i) then ei_References i else ei_References i @ [ref]) \<and>
        snd (appendReference (ei_References i) (Reference (ei_AnnotatedResource i))) =
          (ref \<notin> set (ei_References i)) \<and>
        (distinct (ei_References i) \<longrightarrow> distinct new) \<and>
        updateExisting c i w =
          (if ref \<in> set (ei_References i) then (Ret None, w)
           else (Ret (indexes c u), w\<lparr>calls := calls w @ [u]\<rparr>))"
  using assms
  by (simp add: Let_def appendReference_eq updateExisting_def returns_def Index_Update_def)

theorem updateExisting_directory_reference_witness:
  "updateExisting example_crawler (example_existing DirectorySource None) example_world =
     (Ret None, example_world\<lparr>calls :=
        [UpdateCall Directories ''QmD''
           \<lparr>upd_LastSeen = None,
            upd_References = [\<lparr>ParentHash = ''QmP1'', RefName = ''a''\<rparr>,
                              \<lparr>ParentHash = ''QmP2'', RefName = ''b''\<rparr>]\<rparr>]\<rparr>)"
  using updateExisting_directory_reference
    [of "example_existing DirectorySource None" example_parent example_crawler example_world]
  by (simp add: example_existing_def example_parent_def example_crawler_def example_world_def Let_def)

lemma time_Sub_gt:
  "minDuration \<le> m \<Longrightarrow> m < maxDuration \<Longrightarrow> time_Sub t u > m \<longleftrightarrow> t - u > m"
  by (auto simp: time_Sub_def Let_def)

text \<open>
  C5: for an existing item seen again with \<open>Source = Sniffer\<close> or \<open>Unknown\<close>, with \<open>now\<close> the
  current time truncated to whole seconds: an update setting \<open>LastSeen\<close> to \<open>now\<close> (and
  nothing else) is issued if and only if the stored \<open>LastSeen\<close> is nil or \<open>now\<close> minus the
  stored \<open>LastSeen\<close> exceeds \<open>MinUpdateAge\<close>; otherwise nothing is issued.
  \<open>MinUpdateAge\<close> is an int64 duration below the largest one, at which \<open>Sub\<close> saturates.
\<close>

theorem updateExisting_sniffed_lastseen:
  assumes "Source (ei_AnnotatedResource i) = SnifferSource \<or>
           Source (ei_AnnotatedResource i) = UnknownSource"
    and "minDuration \<le> MinUpdateAge (config c)" "MinUpdateAge (config c) < maxDuration"
  shows
    "let now = Truncate_Second (clock w);
         u = UpdateCall (ei_Index i) (ID (ei_AnnotatedResource i))
               \<lparr>upd_LastSeen = Some now, upd_References = []\<rparr>
     in updateExisting c i w =
          (if (case ei_LastSeen i of
                 None \<Rightarrow> True
               | Some lastSeen \<Rightarrow> now - lastSeen > MinUpdateAge (config c))
           then (Ret (indexes c u), w\<lparr>calls := calls w @ [u]\<rparr>)
           else (Ret None, w)) \<and>
        now mod 1000000000 = 0 \<and> now \<le> clock w \<and> clock w < now + 1000000000"
proof -
  have t: "Truncate_Second (clock w) mod 1000000000 = 0"
    by (simp add: Truncate_Second_def minus_mod_eq_mult_div)
  have b: "Truncate_Second (clock w) \<le> clock w \<and> clock w < Truncate_Second (clock w) + 1000000000"
    by (simp add: Truncate_Second_def)
  from assms(1) show ?thesis
    by (auto simp: Let_def updateExisting_def returns_def Index_Update_def time_Now_def t b
        time_Sub_gt [OF assms(2,3)] split: option.splits)
qed

theorem updateExisting_sniffed_lastseen_witness:
  "updateExisting example_crawler (example_existing SnifferSource (Some 1600000000000000000)) example_world =
     (Ret None, example_world\<lparr>calls :=
        [UpdateCall Directories ''QmD''
           \<lparr>upd_LastSeen = Some 1700000000000000000, upd_References = []\<rparr>]\<rparr>) \<and>
   updateExisting example_crawler (example_existing SnifferSource (Some 1699999999000000000)) example_world =
     (Ret None, example_world)"
  using
    updateExisting_sniffed_lastseen
      [of "example_existing SnifferSource (Some 1600000000000000000)" example_crawler example_world]
    updateExisting_sniffed_lastseen
      [of "example_existing SnifferSource (Some 1699999999000000000)" example_crawler example_world]
  by (simp add: example_existing_def example_crawler_def example_config_def example_world_def Let_def
      Truncate_Second_def minDuration_def maxDuration_def)

text \<open>
  C10: an existing item of the \<open>Files\<close> or \<open>Directories\<close> index seen again with
  \<open>Source = Directory\<close> and a nil \<open>Reference.Parent\<close>: \<open>updateExisting\<close> issues no update,
  so the stored document stays as it is, and the crawl ends after the lookup, reporting
  the item as processed (it returns nil and neither stats nor indexes the resource).
\<close>

theorem updateExisting_directory_without_parent:
  assumes "Source r = DirectorySource" and "Parent (Reference r) = None"
    and "Protocol r \<noteq> InvalidProtocol" and "isSupportedType (Type r)"
    and "indexes_MultiGet c (ID r) = Inr (Some (i, u))" and "i = Files \<or> i = Directories"
  shows
    "updateExisting c \<lparr>ei_AnnotatedResource = r, ei_Index = i, ei_References = upd_References u,
        ei_LastSeen = upd_LastSeen u\<rparr> w' = (Ret None, w') \<and>
     Crawl c r w = (Ret None, w\<lparr>calls := calls w @ [MultiGet (ID r)]\<rparr>)"
proof -
  have u: "updateExisting c \<lparr>ei_AnnotatedResource = r, ei_Index = i, ei_References = upd_References u,
        ei_LastSeen = upd_LastSeen u\<rparr> w' = (Ret None, w')" for w'
    using assms(1,2) by (simp add: updateExisting_def appendReference_def)
  have "updateMaybeExisting c r w = (Ret (True, None), w\<lparr>calls := calls w @ [MultiGet (ID r)]\<rparr>)"
    using assms(5,6) u
    by (auto simp: updateMaybeExisting_def getExistingItem_def Let_def processExisting_def)
  then show ?thesis using u assms(3,4) by (simp add: Crawl_def)
qed

theorem updateExisting_directory_without_parent_witness:
  "Crawl (example_crawler\<lparr>indexes_MultiGet := (\<lambda>cid. Inr (Some (Files,
        \<lparr>upd_LastSeen = Some 1600000000000000000,
         upd_References = [\<lparr>ParentHash = ''QmP1'', RefName = ''a''\<rparr>]\<rparr>)))\<rparr>)
     (AnnotatedResource IPFSProtocol ''QmF'' DirectorySource (Ref None ''f'') UndefinedType 0)
     example_world =
   (Ret None, example_world\<lparr>calls := [MultiGet ''QmF'']\<rparr>)"
  using updateExisting_directory_without_parent
    [of "AnnotatedResource IPFSProtocol ''QmF'' DirectorySource (Ref None ''f'') UndefinedType 0"
        "example_crawler\<lparr>indexes_MultiGet := (\<lambda>cid. Inr (Some (Files,
        \<lparr>upd_LastSeen = Some 1600000000000000000,
         upd_References = [\<lparr>ParentHash = ''QmP1'', RefName = ''a''\<rparr>]\<rparr>)))\<rparr>"
        Files "\<lparr>upd_LastSeen = Some 1600000000000000000,
         upd_References = [\<lparr>ParentHash = ''QmP1'', RefName = ''a''\<rparr>]\<rparr>" example_world example_world]
  by (simp add: isSupportedType_def example_world_def)

section \<open>Directories\<close>

lemma errgroup_Wait_consumer: "ls_return l = None \<Longrightarrow> errgroup_Wait l err = err"
  by (simp add: errgroup_Wait_def)

lemma index_directory:
  assumes "Type r = DirectoryType"
    and "received (protocol_Ls c r) = es" "last_select (protocol_Ls c r) = Closed"
    and "ls_return (protocol_Ls c r) = None"
    and "\<forall>e\<in>set es. listable e"
    and "\<And>k. queues c k = None" "\<And>k. indexes c k = None"
  shows "\<exists>d. index c r w =
      (Ret None,
       w\<lparr>calls := calls w @ map2 dispatched es (priorities w (length es)) @
            [if length es \<le> unat (MaxDirSize (config c))
             then IndexCall Directories (ID r) (DirectoryProperties d)
             else IndexCall Invalids (ID r) (InvalidProperties (Error ErrDirectoryTooLarge))],
         draws := draws w + length es\<rparr>) \<and>
      (length es \<le> unat (MaxDirSize (config c)) \<longrightarrow> length (Links d) = length es)"
proof -
  let ?M = "MaxDirSize (config c)"
  define p0 :: Directory where "p0 = \<lparr>FirstSeen = FirstSeen (makeDocument r w),
      LastSeen = LastSeen (makeDocument r w), References = References (makeDocument r w),
      DocSize = DocSize (makeDocument r w), Links = []\<rparr>"
  let ?w1 = "w\<lparr>calls := calls w @ map2 dispatched es (priorities w (length es)),
               draws := draws w + length es\<rparr>"
  let ?large = "\<exists>i<length es. 0 + of_nat i = ?M"
  from loop_calls [OF assms(5,6,7), of 0 False p0 w]
  obtain d where loop: "processDirEntries_loop c es Closed 0 False p0 w =
      (Ret (errEndOfLs, False \<or> ?large, d), ?w1)"
    and len: "\<not> False \<and> (\<forall>i<length es. 0 + of_nat i \<noteq> ?M) \<longrightarrow>
      length (Links d) = length (Links p0) + length es"
    by blast
  have large: "?large \<longleftrightarrow> unat ?M < length es"
    using large_iff [of "length es" ?M] by simp
  have pde: "processDirEntries c es Closed p0 w =
      (Ret (d, if unat ?M < length es then Some ErrDirectoryTooLarge else None), ?w1)"
    using loop large by (simp add: processDirEntries_def)
  have cd: "crawlDir c r p0 w =
      (Ret (d, if unat ?M < length es then Some ErrDirectoryTooLarge else None), ?w1)"
    using pde assms(2,3,4) by (simp add: crawlDir_def Let_def errgroup_Wait_consumer)
  have gp: "getProperties c r w =
      (Ret (Some Directories, DirectoryProperties d,
            if unat ?M < length es then Some ErrDirectoryTooLarge else None), ?w1)"
    using cd assms(1) by (simp add: getProperties_def getDirectoryProperties_def Let_def p0_def)
  have inv: "errors_Is (Some ErrDirectoryTooLarge) ErrInvalidResource"
    by (simp add: ErrDirectoryTooLarge_def)
  have "index c r w =
      (Ret None,
       w\<lparr>calls := calls w @ map2 dispatched es (priorities w (length es)) @
            [if length es \<le> unat ?M
             then IndexCall Directories (ID r) (DirectoryProperties d)
             else IndexCall Invalids (ID r) (InvalidProperties (Error ErrDirectoryTooLarge))],
         draws := draws w + length es\<rparr>)"
    using gp inv assms(7)
    by (simp add: index_def returns_def indexInvalid_def Index_Index_def not_le)
  moreover have "length es \<le> unat ?M \<longrightarrow> length (Links d) = length es"
    using len large by (auto simp: p0_def)
  ultimately show ?thesis by blast
qed

lemma priorities_range: "p \<in> set (priorities w k) \<Longrightarrow> 1 \<le> unat p \<and> unat p \<le> 7"
proof -
  assume "p \<in> set (priorities w k)"
  then obtain j where "p = of_nat (1 + rand_source w j mod 7)"
    by (auto simp: priorities_def simp del: of_nat_Suc of_nat_add)
  then have u: "unat p = 1 + rand_source w j mod 7" by (simp only: priority_range)
  have "rand_source w j mod 7 < 7" by simp
  with u show ?thesis by linarith
qed

lemma too_large_message: "sublist ''directory too large'' (Error ErrDirectoryTooLarge)"
  by (simp add: ErrDirectoryTooLarge_def sublist_append_rightI)

text \<open>
  C1, as amended. For a directory whose listing yields \<open>k\<close> children (of the types a
  listing gives: undefined, file, directory, unsupported) and closes, with no call
  failing: if \<open>k \<le> MaxDirSize\<close>, one \<open>Directory\<close> document with exactly \<open>k\<close> links is written
  to the \<open>Directories\<close> index; if \<open>k > MaxDirSize\<close>, no \<open>Directory\<close> document is written and
  an \<open>Invalids\<close> document whose error contains ``directory too large'' is written instead.
  In both cases every one of the \<open>k\<close> children goes through \<open>queueDirEntry\<close>, in order and
  before the parent is written, with a priority from 1 to 7: a child of type undefined,
  file or directory is published to its queue, an unsupported child is not queued but
  indexed into \<open>Invalids\<close>.
\<close>

theorem index_directory_cutoff:
  assumes "Type r = DirectoryType"
    and "received (protocol_Ls c r) = es" "last_select (protocol_Ls c r) = Closed"
    and "ls_return (protocol_Ls c r) = None"
    and "\<forall>e\<in>set es. listable e"
    and "\<And>k. queues c k = None" "\<And>k. indexes c k = None"
  shows "\<exists>d. fst (index c r w) = Ret None \<and>
      calls (snd (index c r w)) =
        calls w @ map2 dispatched es (priorities w (length es)) @
          [if length es \<le> unat (MaxDirSize (config c))
           then IndexCall Directories (ID r) (DirectoryProperties d)
           else IndexCall Invalids (ID r) (InvalidProperties (Error ErrDirectoryTooLarge))] \<and>
      (length es \<le> unat (MaxDirSize (config c)) \<longrightarrow> length (Links d) = length es) \<and>
      sublist ''directory too large'' (Error ErrDirectoryTooLarge) \<and>
      length (map2 dispatched es (priorities w (length es))) = length es \<and>
      (\<forall>p\<in>set (priorities w (length es)). 1 \<le> unat p \<and> unat p \<le> 7)"
proof -
  from index_directory [OF assms, of w] obtain d where
    "index c r w =
      (Ret None,
       w\<lparr>calls := calls w @ map2 dispatched es (priorities w (length es)) @
            [if length es \<le> unat (MaxDirSize (config c))
             then IndexCall Directories (ID r) (DirectoryProperties d)
             else IndexCall Invalids (ID r) (InvalidProperties (Error ErrDirectoryTooLarge))],
         draws := draws w + length es\<rparr>)"
    and "length es \<le> unat (MaxDirSize (config c)) \<longrightarrow> length (Links d) = length es"
    by blast
  then show ?thesis
    using too_large_message priorities_range [of _ w "length es"] by (intro exI [of _ d]) auto
qed

theorem index_directory_cutoff_witness:
  "calls (snd (index (example_dir_crawler 3 example_entries) example_parent example_world)) =
     [PublishCall FilesQueue (example_child ''QmC1'' ''a.txt'' FileType) 6,
      PublishCall FilesQueue (example_child ''QmC2'' ''b.txt'' FileType) 2,
      PublishCall DirectoriesQueue (example_child ''QmC3'' ''sub'' DirectoryType) 5,
      PublishCall HashesQueue (example_child ''QmC4'' ''c'' UndefinedType) 1,
      IndexCall Invalids ''QmC5'' (InvalidProperties ''unsupported type: invalid resource''),
      IndexCall Invalids ''QmP2'' (InvalidProperties ''directory too large: invalid resource'')] \<and>
   (\<exists>d. calls (snd (index (example_dir_crawler 5 example_entries) example_parent example_world)) =
     [PublishCall FilesQueue (example_child ''QmC1'' ''a.txt'' FileType) 6,
      PublishCall FilesQueue (example_child ''QmC2'' ''b.txt'' FileType) 2,
      PublishCall DirectoriesQueue (example_child ''QmC3'' ''sub'' DirectoryType) 5,
      PublishCall HashesQueue (example_child ''QmC4'' ''c'' UndefinedType) 1,
      IndexCall Invalids ''QmC5'' (InvalidProperties ''unsupported type: invalid resource''),
      IndexCall Directories ''QmP2'' (DirectoryProperties d)] \<and> length (Links d) = 5)"
proof -
  have es: "\<forall>e\<in>set example_entries. listable e"
    by (simp add: example_entries_def example_child_def listable_def)
  have pr: "priorities example_world 5 = [6, 2, 5, 1, 4]"
    by (simp add: priorities_def example_world_def upt_rec)
  have dp: "map2 dispatched example_entries [6, 2, 5, 1, 4] =
     [PublishCall FilesQueue (example_child ''QmC1'' ''a.txt'' FileType) 6,
      PublishCall FilesQueue (example_child ''QmC2'' ''b.txt'' FileType) 2,
      PublishCall DirectoriesQueue (example_child ''QmC3'' ''sub'' DirectoryType) 5,
      PublishCall HashesQueue (example_child ''QmC4'' ''c'' UndefinedType) 1,
      IndexCall Invalids ''QmC5'' (InvalidProperties ''unsupported type: invalid resource'')]"
    by (simp add: example_entries_def dispatched_def example_child_def ErrUnsupportedType_def)
  have len: "length example_entries = 5" by (simp add: example_entries_def)
  have w: "calls example_world = []" by (simp add: example_world_def)
  have id: "ID example_parent = ''QmP2''" "Type example_parent = DirectoryType"
    by (simp_all add: example_parent_def)
  have m: "Error ErrDirectoryTooLarge = ''directory too large: invalid resource''"
    by (simp add: ErrDirectoryTooLarge_def)
  have c3: "MaxDirSize (config (example_dir_crawler 3 example_entries)) = 3"
    and c5: "MaxDirSize (config (example_dir_crawler 5 example_entries)) = 5"
    by (simp_all add: example_dir_crawler_def example_crawler_def)
  show ?thesis
    using
      index_directory_cutoff [of example_parent "example_dir_crawler 3 example_entries"
        example_entries example_world, OF id(2) _ _ _ es]
      index_directory_cutoff [of example_parent "example_dir_crawler 5 example_entries"
        example_entries example_world, OF id(2) _ _ _ es]
    by (simp add: pr dp len w id m c3 c5) (simp add: example_dir_crawler_def example_crawler_def)
qed

text \<open>
  The claim as stated, that all \<open>k\<close> children are queued, fails for a directory with an
  unsupported child: nothing is published for it.
\<close>

theorem index_directory_cutoff_counterexample:
  "index (example_dir_crawler 3 [example_child ''QmC5'' ''dev'' UnsupportedType])
     example_parent example_world =
   (Ret None,
    example_world
      \<lparr>calls :=
         [IndexCall Invalids ''QmC5'' (InvalidProperties ''unsupported type: invalid resource''),
          IndexCall Directories ''QmP2''
            (DirectoryProperties
               \<lparr>FirstSeen = 1700000000000000000, LastSeen = 1700000000000000000,
                References = [], DocSize = 0,
                Links = [\<lparr>Hash = ''QmC5'', LinkName = ''dev'', LinkSize = 100,
                          LinkTyp = UnsupportedLinkType\<rparr>]\<rparr>)],
       draws := 1\<rparr>)"
  by (simp add: example_dir_crawler_def example_crawler_def example_config_def
      example_world_def example_parent_def example_child_def
      index_def getProperties_def getDirectoryProperties_def crawlDir_def
      processDirEntries_def queueDirEntry_def rand_Intn_def addLink_def resourceToLinkType_def
      indexInvalid_def Index_Index_def returns_def errgroup_Wait_def makeDocument_def
      Truncate_Second_def time_Now_def ErrUnsupportedType_def Let_def)

text \<open>
  C6, as amended. With \<open>MaxDirSize = 0\<close>, for every directory with at least one child no
  \<open>Directory\<close> document is written: the crawl of the directory ends with
  \<open>ErrDirectoryTooLarge\<close>, written to \<open>Invalids\<close>, after every child went through
  \<open>queueDirEntry\<close>. A directory without children is not too large: it is written to the
  \<open>Directories\<close> index with no links.
\<close>

theorem index_directory_MaxDirSize_zero:
  assumes "MaxDirSize (config c) = 0"
    and "Type r = DirectoryType"
    and "received (protocol_Ls c r) = es" "last_select (protocol_Ls c r) = Closed"
    and "ls_return (protocol_Ls c r) = None"
    and "\<forall>e\<in>set es. listable e"
    and "\<And>k. queues c k = None" "\<And>k. indexes c k = None"
  shows
    "(es \<noteq> [] \<longrightarrow>
        index c r w =
          (Ret None,
           w\<lparr>calls := calls w @ map2 dispatched es (priorities w (length es)) @
                [IndexCall Invalids (ID r) (InvalidProperties (Error ErrDirectoryTooLarge))],
             draws := draws w + length es\<rparr>)) \<and>
     (es = [] \<longrightarrow>
        (\<exists>d. index c r w =
               (Ret None, w\<lparr>calls := calls w @ [IndexCall Directories (ID r) (DirectoryProperties d)]\<rparr>) \<and>
             Links d = []))"
proof -
  from index_directory [OF assms(2-8), of w] obtain d where
    i: "index c r w =
      (Ret None,
       w\<lparr>calls := calls w @ map2 dispatched es (priorities w (length es)) @
            [if length es \<le> unat (MaxDirSize (config c))
             then IndexCall Directories (ID r) (DirectoryProperties d)
             else IndexCall Invalids (ID r) (InvalidProperties (Error ErrDirectoryTooLarge))],
         draws := draws w + length es\<rparr>)"
    and l: "length es \<le> unat (MaxDirSize (config c)) \<longrightarrow> length (Links d) = length es"
    by blast
  show ?thesis
  proof (intro conjI impI)
    assume "es \<noteq> []"
    then show "index c r w =
          (Ret None,
           w\<lparr>calls := calls w @ map2 dispatched es (priorities w (length es)) @
                [IndexCall Invalids (ID r) (InvalidProperties (Error ErrDirectoryTooLarge))],
             draws := draws w + length es\<rparr>)"
      using i assms(1) by simp
  next
    assume "es = []"
    then show "\<exists>d. index c r w =
               (Ret None, w\<lparr>calls := calls w @ [IndexCall Directories (ID r) (DirectoryProperties d)]\<rparr>) \<and>
             Links d = []"
      using i l assms(1) by (intro exI [of _ d]) (simp add: priorities_def)
  qed
qed

theorem index_directory_MaxDirSize_zero_witness:
  "index (example_dir_crawler 0 [example_child ''QmC1'' ''a.txt'' FileType])
     example_parent example_world =
   (Ret None,
    example_world
      \<lparr>calls :=
         [PublishCall FilesQueue (example_child ''QmC1'' ''a.txt'' FileType) 6,
          IndexCall Invalids ''QmP2'' (InvalidProperties ''directory too large: invalid resource'')],
       draws := 1\<rparr>)"
proof -
  have es: "\<forall>e\<in>set [example_child ''QmC1'' ''a.txt'' FileType]. listable e"
    by (simp add: example_child_def listable_def)
  have pr: "priorities example_world (Suc 0) = [6]"
    by (simp add: priorities_def example_world_def)
  have dp: "dispatched (example_child ''QmC1'' ''a.txt'' FileType) 6 =
      PublishCall FilesQueue (example_child ''QmC1'' ''a.txt'' FileType) 6"
    by (simp add: dispatched_def example_child_def)
  have w: "calls example_world = []" "draws example_world = 0" by (simp_all add: example_world_def)
  have id: "ID example_parent = ''QmP2''" "Type example_parent = DirectoryType"
    by (simp_all add: example_parent_def)
  have m: "Error ErrDirectoryTooLarge = ''directory too large: invalid resource''"
    by (simp add: ErrDirectoryTooLarge_def)
  have c0: "MaxDirSize (config (example_dir_crawler 0 es)) = 0" for es
    by (simp add: example_dir_crawler_def example_crawler_def)
  show ?thesis
    using index_directory_MaxDirSize_zero
      [of "example_dir_crawler 0 [example_child ''QmC1'' ''a.txt'' FileType]" example_parent
        "[example_child ''QmC1'' ''a.txt'' FileType]" example_world, OF c0 id(2) _ _ _ es]
    by (simp add: pr dp w id m) (simp add: example_dir_crawler_def example_crawler_def)
qed

text \<open>
  The claim as stated fails for the directory without children, which is written to the
  \<open>Directories\<close> index although \<open>MaxDirSize = 0\<close>.
\<close>

theorem index_directory_MaxDirSize_zero_counterexample:
  "index (example_dir_crawler 0 []) example_parent example_world =
   (Ret None,
    example_world
      \<lparr>calls :=
         [IndexCall Directories ''QmP2''
            (DirectoryProperties
               \<lparr>FirstSeen = 1700000000000000000, LastSeen = 1700000000000000000,
                References = [], DocSize = 0, Links = []\<rparr>)]\<rparr>)"
  by (simp add: example_dir_crawler_def example_crawler_def example_config_def
      example_world_def example_parent_def example_child_def
      index_def getProperties_def getDirectoryProperties_def crawlDir_def
      processDirEntries_def Index_Index_def returns_def errgroup_Wait_def makeDocument_def
      Truncate_Second_def time_Now_def Let_def)

text \<open>
  C7: \<open>queueDirEntry\<close> gives every child the priority \<open>1 + rand.Intn(7)\<close>, a number from 1
  to 7 that depends on nothing but the child's own draw of the random source (one draw per
  child; neither the child nor its parent enters), and every priority from 1 to 7 is the
  image of exactly one outcome of \<open>rand.Intn(7)\<close>, so the priority is as uniform as the
  draw. The child is dispatched by type: undefined to the \<open>Hashes\<close> queue, file to the
  \<open>Files\<close> queue, directory to the \<open>Directories\<close> queue; an unsupported child is not queued
  but indexed at once into \<open>Invalids\<close> with the unsupported-type error.
\<close>

theorem queueDirEntry_priority_and_dispatch:
  "let priority = (of_nat (1 + rand_source w (draws w) mod 7) :: 8 word);
       w1 = w\<lparr>draws := Suc (draws w)\<rparr>;
       invalid = IndexCall Invalids (ID r) (InvalidProperties (Error ErrUnsupportedType))
   in 1 \<le> unat priority \<and> unat priority \<le> 7 \<and>
      bij_betw (\<lambda>n. unat (of_nat (1 + n) :: 8 word)) {0..<7} {1..7} \<and>
      (Type r = UndefinedType \<longrightarrow>
         queueDirEntry c r w =
           (Ret (queues c (PublishCall HashesQueue r priority)),
            w1\<lparr>calls := calls w @ [PublishCall HashesQueue r priority]\<rparr>)) \<and>
      (Type r = FileType \<longrightarrow>
         queueDirEntry c r w =
           (Ret (queues c (PublishCall FilesQueue r priority)),
            w1\<lparr>calls := calls w @ [PublishCall FilesQueue r priority]\<rparr>)) \<and>
      (Type r = DirectoryType \<longrightarrow>
         queueDirEntry c r w =
           (Ret (queues c (PublishCall DirectoriesQueue r priority)),
            w1\<lparr>calls := calls w @ [PublishCall DirectoriesQueue r priority]\<rparr>)) \<and>
      (Type r = UnsupportedType \<longrightarrow>
         queueDirEntry c r w = (Ret (indexes c invalid), w1\<lparr>calls := calls w @ [invalid]\<rparr>))"
proof -
  have r: "1 \<le> unat (of_nat (1 + rand_source w (draws w) mod 7) :: 8 word) \<and>
           unat (of_nat (1 + rand_source w (draws w) mod 7) :: 8 word) \<le> 7"
  proof -
    have "rand_source w (draws w) mod 7 < 7" by simp
    then show ?thesis by (simp only: priority_range) linarith
  qed
  have u: "unat (of_nat (1 + n) :: 8 word) = 1 + n" if "n < 7" for n
    using that priority_range [of n] by (simp del: of_nat_Suc of_nat_add)
  have b: "bij_betw (\<lambda>n. unat (of_nat (1 + n) :: 8 word)) {0..<7} {1..7}"
  proof (rule bij_betw_byWitness [where f' = "\<lambda>p. p - 1"])
    show "\<forall>a\<in>{0..<7}. unat (of_nat (1 + a) :: 8 word) - 1 = a" using u by simp
    show "\<forall>a'\<in>{1..7}. unat (of_nat (1 + (a' - 1)) :: 8 word) = a'"
    proof
      fix a' :: nat assume "a' \<in> {1..7}"
      then have "a' - 1 < 7" "1 + (a' - 1) = a'" by auto
      then show "unat (of_nat (1 + (a' - 1)) :: 8 word) = a'" using u [of "a' - 1"] by simp
    qed
    show "(\<lambda>n. unat (of_nat (1 + n) :: 8 word)) ` {0..<7} \<subseteq> {1..7}" using u by auto
    show "(\<lambda>p::nat. p - 1) ` {1..7} \<subseteq> {0..<7}" by auto
  qed
  have d: "queueDirEntry c r w =
     (let priority = (of_nat (1 + rand_source w (draws w) mod 7) :: 8 word);
          w1 = w\<lparr>draws := Suc (draws w)\<rparr>
      in case Type r of
             UndefinedType \<Rightarrow> returns (Queue_Publish c HashesQueue r priority w1)
           | FileType \<Rightarrow> returns (Queue_Publish c FilesQueue r priority w1)
           | DirectoryType \<Rightarrow> returns (Queue_Publish c DirectoriesQueue r priority w1)
           | UnsupportedType \<Rightarrow> returns (indexInvalid c r ErrUnsupportedType w1)
           | _ \<Rightarrow> (Panic ''unexpected type'', w1))"
    by (simp add: queueDirEntry_def rand_Intn_def Let_def)
  show ?thesis
    unfolding Let_def
    using r b
    by (simp add: d Let_def returns_def Queue_Publish_def indexInvalid_def Index_Index_def
        del: of_nat_Suc of_nat_add)
qed

theorem queueDirEntry_priority_and_dispatch_witness:
  "queueDirEntry example_crawler (example_child ''QmC5'' ''dev'' UnsupportedType) example_world =
     (Ret None,
      example_world
        \<lparr>draws := 1,
         calls := [IndexCall Invalids ''QmC5'' (InvalidProperties ''unsupported type: invalid resource'')]\<rparr>) \<and>
   queueDirEntry example_crawler (example_child ''QmC4'' ''c'' UndefinedType) example_world =
     (Ret None,
      example_world
        \<lparr>draws := 1,
         calls := [PublishCall HashesQueue (example_child ''QmC4'' ''c'' UndefinedType) 6]\<rparr>)"
  using
    queueDirEntry_priority_and_dispatch
      [of example_world "example_child ''QmC5'' ''dev'' UnsupportedType" example_crawler]
    queueDirEntry_priority_and_dispatch
      [of example_world "example_child ''QmC4'' ''c'' UndefinedType" example_crawler]
  by (simp add: Let_def example_child_def example_world_def example_crawler_def ErrUnsupportedType_def)

section \<open>Partial items\<close>

text \<open>
  Indexing does not depend on the lookup over the indexes, and it deletes nothing.
\<close>

lemma queueDirEntry_MultiGet [simp]:
  "queueDirEntry (c\<lparr>indexes_MultiGet := g\<rparr>) r w = queueDirEntry c r w"
  by (cases "Type r")
     (simp_all add: queueDirEntry_def Queue_Publish_def indexInvalid_def Index_Index_def
        split: prod.splits)

lemma processDirEntries_loop_MultiGet [simp]:
  "processDirEntries_loop (c\<lparr>indexes_MultiGet := g\<rparr>) es fin n l p w =
   processDirEntries_loop c es fin n l p w"
proof (induction es arbitrary: n l p w)
  case Nil
  then show ?case by (cases fin) simp_all
next
  case (Cons e es)
  then show ?case by (simp add: Let_def split: res.splits prod.splits option.splits)
qed

lemma getFileProperties_MultiGet [simp]:
  "getFileProperties (c\<lparr>indexes_MultiGet := g\<rparr>) r w = getFileProperties c r w"
  by (simp add: getFileProperties_def)

lemma processDirEntries_MultiGet [simp]:
  "processDirEntries (c\<lparr>indexes_MultiGet := g\<rparr>) es fin p w = processDirEntries c es fin p w"
  by (simp add: processDirEntries_def)

lemma crawlDir_MultiGet [simp]:
  "crawlDir (c\<lparr>indexes_MultiGet := g\<rparr>) r p w = crawlDir c r p w"
  by (simp add: crawlDir_def)

lemma getDirectoryProperties_MultiGet [simp]:
  "getDirectoryProperties (c\<lparr>indexes_MultiGet := g\<rparr>) r w = getDirectoryProperties c r w"
  by (simp add: getDirectoryProperties_def)

lemma getProperties_MultiGet [simp]:
  "getProperties (c\<lparr>indexes_MultiGet := g\<rparr>) r w = getProperties c r w"
  by (cases "Type r") (simp_all add: getProperties_def)

lemma Index_Index_MultiGet [simp]:
  "Index_Index (c\<lparr>indexes_MultiGet := g\<rparr>) i cid p w = Index_Index c i cid p w"
  by (simp add: Index_Index_def)

lemma indexInvalid_MultiGet [simp]:
  "indexInvalid (c\<lparr>indexes_MultiGet := g\<rparr>) r e w = indexInvalid c r e w"
  by (simp add: indexInvalid_def)

lemma index_MultiGet [simp]: "index (c\<lparr>indexes_MultiGet := g\<rparr>) r w = index c r w"
  by (simp add: index_def cong: res.case_cong prod.case_cong option.case_cong if_cong)

lemma ensureType_MultiGet [simp]: "ensureType (c\<lparr>indexes_MultiGet := g\<rparr>) r = ensureType c r"
  by (simp add: ensureType_def)

lemma queueDirEntry_no_delete:
  "DeleteCall i cid \<notin> set (calls w) \<Longrightarrow> DeleteCall i cid \<notin> set (calls (snd (queueDirEntry c r w)))"
  by (cases "Type r")
     (simp_all add: queueDirEntry_def rand_Intn_def Let_def returns_def Queue_Publish_def
        indexInvalid_def Index_Index_def)

lemma processDirEntries_loop_no_delete:
  "DeleteCall i cid \<notin> set (calls w) \<Longrightarrow>
   DeleteCall i cid \<notin> set (calls (snd (processDirEntries_loop c es fin n l p w)))"
proof (induction es arbitrary: n l p w)
  case Nil
  then show ?case by (cases fin) simp_all
next
  case (Cons e es)
  obtain a w1 where q: "queueDirEntry c e w = (a, w1)" by (cases "queueDirEntry c e w")
  with queueDirEntry_no_delete [OF Cons.prems, of c e] have w1: "DeleteCall i cid \<notin> set (calls w1)"
    by simp
  show ?case
    using Cons.prems w1 Cons.IH [OF w1] q
    by (simp add: Let_def split: res.splits option.splits)
qed

lemma index_no_delete:
  "DeleteCall i cid \<notin> set (calls w) \<Longrightarrow> DeleteCall i cid \<notin> set (calls (snd (index c r w)))"
proof -
  assume a: "DeleteCall i cid \<notin> set (calls w)"
  have pde: "DeleteCall i cid \<notin> set (calls (snd (processDirEntries c es fin p w)))" for es fin p
    using processDirEntries_loop_no_delete [OF a, of c es fin 0 False p]
    by (cases "processDirEntries_loop c es fin 0 False p w")
       (auto simp: processDirEntries_def split: res.splits)
  have cd: "DeleteCall i cid \<notin> set (calls (snd (crawlDir c r p w)))" for p
    using pde [of "received (protocol_Ls c r)" "last_select (protocol_Ls c r)" p]
    by (cases "processDirEntries c (received (protocol_Ls c r)) (last_select (protocol_Ls c r)) p w")
       (auto simp: crawlDir_def Let_def split: res.splits)
  have gd: "DeleteCall i cid \<notin> set (calls (snd (getDirectoryProperties c r w)))"
  proof -
    define p0 :: Directory where "p0 = \<lparr>FirstSeen = FirstSeen (makeDocument r w),
      LastSeen = LastSeen (makeDocument r w), References = References (makeDocument r w),
      DocSize = DocSize (makeDocument r w), Links = []\<rparr>"
    show ?thesis
      using cd [of p0]
      by (cases "crawlDir c r p0 w")
         (auto simp: getDirectoryProperties_def Let_def p0_def split: res.splits)
  qed
  have gp: "DeleteCall i cid \<notin> set (calls (snd (getProperties c r w)))"
    using gd a by (cases "Type r") (auto simp: getProperties_def split: prod.splits res.splits)
  obtain x w1 where g: "getProperties c r w = (x, w1)" by (cases "getProperties c r w")
  with gp have "DeleteCall i cid \<notin> set (calls w1)" by simp
  then show ?thesis
    using g
    by (auto simp: index_def returns_def indexInvalid_def Index_Index_def
        split: res.splits option.splits)
qed

text \<open>
  C3: for a resource found in the \<open>Partials\<close> index during \<open>Crawl\<close>: with a nil
  \<open>Reference.Parent\<close> the crawl stops after the lookup, with no write; with a parent (and
  the delete succeeding) the id is deleted from \<open>Partials\<close> exactly once, right after the
  lookup, and the crawl goes on as for a resource that is in no index: the calls that
  follow the delete and the result are those of the crawl of the same resource with the
  lookup finding nothing, and there is no other delete among them.
\<close>

theorem Crawl_partial:
  assumes "Protocol r \<noteq> InvalidProtocol" and "isSupportedType (Type r)"
    and "indexes_MultiGet c (ID r) = Inr (Some (Partials, u))"
  shows
    "(Parent (Reference r) = None \<longrightarrow>
        Crawl c r w = (Ret None, w\<lparr>calls := calls w @ [MultiGet (ID r)]\<rparr>)) \<and>
     (Parent (Reference r) \<noteq> None \<and> indexes c (DeleteCall Partials (ID r)) = None \<longrightarrow>
        (\<exists>rest.
           calls (snd (Crawl c r w)) =
             calls w @ [MultiGet (ID r), DeleteCall Partials (ID r)] @ rest \<and>
           calls (snd (Crawl (c\<lparr>indexes_MultiGet := \<lambda>cid. Inr None\<rparr>) r w)) =
             calls w @ [MultiGet (ID r)] @ rest \<and>
           (\<forall>i cid. DeleteCall i cid \<notin> set rest)) \<and>
        fst (Crawl c r w) = fst (Crawl (c\<lparr>indexes_MultiGet := \<lambda>cid. Inr None\<rparr>) r w))"
proof (intro conjI impI)
  assume "Parent (Reference r) = None"
  then have "updateMaybeExisting c r w = (Ret (True, None), w\<lparr>calls := calls w @ [MultiGet (ID r)]\<rparr>)"
    using assms(3)
    by (simp add: updateMaybeExisting_def getExistingItem_def Let_def processExisting_def
        processPartial_def returns_def)
  then show "Crawl c r w = (Ret None, w\<lparr>calls := calls w @ [MultiGet (ID r)]\<rparr>)"
    by (simp add: Crawl_guarded [OF assms(1,2)])
next
  assume a: "Parent (Reference r) \<noteq> None \<and> indexes c (DeleteCall Partials (ID r)) = None"
  let ?c' = "c\<lparr>indexes_MultiGet := \<lambda>cid. Inr None\<rparr>"
  let ?w1 = "w\<lparr>calls := calls w @ [MultiGet (ID r)]\<rparr>"
  let ?w2 = "w\<lparr>calls := calls w @ [MultiGet (ID r), DeleteCall Partials (ID r)]\<rparr>"
  define T where "T = (\<lambda>w1.
      case ensureType c r of
        (r', Some err) \<Rightarrow>
          if errors_Is (Some err) ErrInvalidResource
          then returns (indexInvalid c r' err w1)
          else (Ret (Some err), w1)
      | (r', None) \<Rightarrow> index c r' w1)"
  have u: "updateMaybeExisting c r w = (Ret (False, None), ?w2)"
    using assms(3) a
    by (auto simp: updateMaybeExisting_def getExistingItem_def Let_def processExisting_def
        processPartial_def deletePartial_def Index_Delete_def returns_def)
  have u': "updateMaybeExisting ?c' r w = (Ret (False, None), ?w1)"
    by (simp add: updateMaybeExisting_def getExistingItem_def Let_def)
  have C: "Crawl c r w = T ?w2"
    by (simp add: Crawl_guarded [OF assms(1,2)] u T_def)
  have C': "Crawl ?c' r w = T ?w1"
    by (simp add: Crawl_guarded [OF assms(1,2)] u' T_def
        cong: prod.case_cong option.case_cong if_cong)
  have frame: "T w1 = prepend (calls w1) (T (clear w1))" for w1
  proof (cases "ensureType c r")
    case (Pair r' e)
    show ?thesis
    proof (cases e)
      case None
      with Pair show ?thesis using index_frame [of c r' w1] by (simp add: T_def)
    next
      case (Some err)
      with Pair show ?thesis
        by (simp add: T_def returns_def indexInvalid_def Index_Index_def)
    qed
  qed
  have nodel: "DeleteCall i cid \<notin> set (calls (snd (T (clear w))))" for i cid
  proof (cases "ensureType c r")
    case (Pair r' e)
    show ?thesis
    proof (cases e)
      case None
      with Pair show ?thesis using index_no_delete [of i cid "clear w" c r'] by (simp add: T_def)
    next
      case (Some err)
      with Pair show ?thesis
        by (simp add: T_def returns_def indexInvalid_def Index_Index_def)
    qed
  qed
  have cl: "clear ?w1 = clear w" "clear ?w2 = clear w" by simp_all
  have T2: "T ?w2 = prepend (calls w @ [MultiGet (ID r), DeleteCall Partials (ID r)]) (T (clear w))"
    using frame [of ?w2] by (simp only: cl) simp
  have T1: "T ?w1 = prepend (calls w @ [MultiGet (ID r)]) (T (clear w))"
    using frame [of ?w1] by (simp only: cl) simp
  show "\<exists>rest.
           calls (snd (Crawl c r w)) =
             calls w @ [MultiGet (ID r), DeleteCall Partials (ID r)] @ rest \<and>
           calls (snd (Crawl ?c' r w)) = calls w @ [MultiGet (ID r)] @ rest \<and>
           (\<forall>i cid. DeleteCall i cid \<notin> set rest)"
    using nodel by (intro exI [of _ "calls (snd (T (clear w)))"]) (simp add: C C' T1 T2 prepend_def)
  show "fst (Crawl c r w) = fst (Crawl ?c' r w)"
    by (simp add: C C' T1 T2 prepend_def)
qed

theorem Crawl_partial_witness:
  "Crawl (example_crawler\<lparr>indexes_MultiGet :=
             (\<lambda>cid. Inr (Some (Partials, \<lparr>upd_LastSeen = None, upd_References = []\<rparr>)))\<rparr>)
     (AnnotatedResource IPFSProtocol ''QmX'' DirectorySource (Ref None ''x'') FileType 100)
     example_world =
   (Ret None, example_world\<lparr>calls := [MultiGet ''QmX'']\<rparr>) \<and>
   Crawl (example_crawler\<lparr>indexes_MultiGet :=
             (\<lambda>cid. Inr (Some (Partials, \<lparr>upd_LastSeen = None, upd_References = []\<rparr>)))\<rparr>)
     (example_child ''QmX'' ''x'' FileType) example_world =
   (Ret None,
    example_world
      \<lparr>calls :=
         [MultiGet ''QmX'', DeleteCall Partials ''QmX'',
          IndexCall Files ''QmX''
            (FileProperties
               \<lparr>FirstSeen = 1700000000000000000, LastSeen = 1700000000000000000,
                References = [\<lparr>ParentHash = ''QmP2'', RefName = ''x''\<rparr>], DocSize = 100,
                Metadata = []\<rparr>)]\<rparr>)"
  using
    Crawl_partial
      [of "AnnotatedResource IPFSProtocol ''QmX'' DirectorySource (Ref None ''x'') FileType 100"
        "example_crawler\<lparr>indexes_MultiGet :=
             (\<lambda>cid. Inr (Some (Partials, \<lparr>upd_LastSeen = None, upd_References = []\<rparr>)))\<rparr>"
        "\<lparr>upd_LastSeen = None, upd_References = []\<rparr>" example_world]
    Crawl_partial
      [of "example_child ''QmX'' ''x'' FileType"
        "example_crawler\<lparr>indexes_MultiGet :=
             (\<lambda>cid. Inr (Some (Partials, \<lparr>upd_LastSeen = None, upd_References = []\<rparr>)))\<rparr>"
        "\<lparr>upd_LastSeen = None, upd_References = []\<rparr>" example_world]
  by (simp add: example_crawler_def example_config_def
      example_world_def example_parent_def example_child_def
      Crawl_def isSupportedType_def updateMaybeExisting_def
      getExistingItem_def ensureType_def index_def getProperties_def getFileProperties_def
      makeDocument_def Truncate_Second_def time_Now_def Index_Index_def returns_def Let_def
      processExisting_def processPartial_def deletePartial_def Index_Delete_def)

section \<open>The extractor chain\<close>

lemma getFileProperties_loop_too_large:
  "e r p = (Some x, p') \<Longrightarrow> errors_Is (Some x) ErrFileTooLarge \<Longrightarrow>
   getFileProperties_loop (e # es) r p err = (NoProperties, Some (Errorf_wv ErrInvalidResource x)) \<and>
   errors_Is (Some (Errorf_wv ErrInvalidResource x)) ErrInvalidResource"
  by simp

text \<open>
  C2: the claim asks that any error of any extractor other than ``file too large''
  leaves the file-indexing operation, with no \<open>Files\<close> document written. The loop of
  \<open>getFileProperties\<close> overwrites \<open>err\<close> at every extractor and only looks at it for
  ``file too large'', so only the error of the last extractor is returned. With a first
  extractor that fails and a second one that succeeds the error is lost: \<open>index\<close> returns
  nil and writes the \<open>Files\<close> document; with the same two extractors in the other order
  the error is returned and nothing is written.
\<close>

theorem getFileProperties_drops_earlier_error:
  "index (example_crawler\<lparr>extractors := [example_failing_extractor, example_nsfw_extractor]\<rparr>)
     (example_child ''QmF'' ''f'' FileType) example_world =
   (Ret None,
    example_world
      \<lparr>calls :=
         [IndexCall Files ''QmF''
            (FileProperties
               \<lparr>FirstSeen = 1700000000000000000, LastSeen = 1700000000000000000,
                References = [\<lparr>ParentHash = ''QmP2'', RefName = ''f''\<rparr>], DocSize = 100,
                Metadata = [(''nsfw'', ''0.02'')]\<rparr>)]\<rparr>) \<and>
   index (example_crawler\<lparr>extractors := [example_nsfw_extractor, example_failing_extractor]\<rparr>)
     (example_child ''QmF'' ''f'' FileType) example_world =
   (Ret (Some (ExternalError ''tika: connection refused'')), example_world)"
  by (simp add: example_crawler_def example_config_def
      example_world_def example_parent_def example_child_def
      example_failing_extractor_def example_nsfw_extractor_def index_def
      getProperties_def getFileProperties_def makeDocument_def Truncate_Second_def time_Now_def
      Index_Index_def returns_def Let_def)

end
